theory Spec2Isabelle
  imports Main "HOL-Library.AList"
begin

section \<open>Strings as the plugin uses them\<close>

text \<open>
  A JavaScript string is modelled as a \<^typ>\<open>string\<close> (a list of characters).
  \<open>s.split(sep)\<close> with a one-character separator always returns at least one
  piece: the empty string splits into one empty piece.
\<close>

fun split_on :: "char \<Rightarrow> string \<Rightarrow> string list" where
  "split_on sep [] = [[]]"
| "split_on sep (c # cs) =
     (if c = sep then [] # split_on sep cs
      else (case split_on sep cs of
              [] \<Rightarrow> [[c]]
            | p # ps \<Rightarrow> (c # p) # ps))"

text \<open>\<open>s.endsWith("!")\<close> and \<open>s.substring(0, s.length - 1)\<close>.\<close>

definition endsWith_bang :: "string \<Rightarrow> bool" where
  "endsWith_bang s = (s \<noteq> [] \<and> last s = CHR ''!'')"

definition drop_last_char :: "string \<Rightarrow> string" where
  "drop_last_char s = butlast s"

section \<open>parseAttribute\<close>

text \<open>
  \<open>PgCodecPolymorphismSingleTypeAttributeSpec\<close>: the attribute name, the not-null
  override and the optional rename (\<open>undefined\<close> is \<open>None\<close>).
\<close>

record attribute_spec =
  attribute :: string
  isNotNull :: bool
  rename :: "string option"

text \<open>
  \<open>const [a, b] = spec.split(">")\<close>: the first piece, and the second piece when
  there is one; further pieces are ignored.
\<close>

definition parseAttribute :: "string \<Rightarrow> attribute_spec" where
  "parseAttribute colSpec =
     (let isNotNull = endsWith_bang colSpec;
          spec = (if isNotNull then drop_last_char colSpec else colSpec);
          parts = split_on (CHR ''>'') spec
      in \<lparr> attribute = (case parts of [] \<Rightarrow> [] | a # _ \<Rightarrow> a),
           isNotNull = isNotNull,
           rename = (case parts of _ # b # _ \<Rightarrow> Some b | _ \<Rightarrow> None) \<rparr>)"

text \<open>
  The two ways of writing an override entry with both suffixes. \<open>entry_bang_last\<close>
  is \<open>name[>rename][!]\<close>; \<open>entry_bang_first\<close> is \<open>name[!][>rename]\<close>.
\<close>

definition entry_bang_last :: "string \<Rightarrow> bool \<Rightarrow> string option \<Rightarrow> string" where
  "entry_bang_last nm nn rn =
     nm @ (case rn of None \<Rightarrow> [] | Some r \<Rightarrow> CHR ''>'' # r) @ (if nn then ''!'' else [])"

definition entry_bang_first :: "string \<Rightarrow> bool \<Rightarrow> string option \<Rightarrow> string" where
  "entry_bang_first nm nn rn =
     nm @ (if nn then ''!'' else []) @ (case rn of None \<Rightarrow> [] | Some r \<Rightarrow> CHR ''>'' # r)"

text \<open>A name or rename that itself contains neither of the two marker characters.\<close>

definition plain :: "string \<Rightarrow> bool" where
  "plain s = (CHR ''!'' \<notin> set s \<and> CHR ''>'' \<notin> set s)"

section \<open>Smart tags and errors\<close>

text \<open>
  A smart tag's value is a string, \<open>true\<close> (a tag with no value), or an array of
  these when the tag is repeated; a tag that is not there reads as \<open>undefined\<close>
  (\<open>None\<close>).
\<close>

datatype tag_elem = TagTrue | TagStr string

datatype tag_value = TagOne tag_elem | TagMany "tag_elem list"

type_synonym tags = "string \<rightharpoonup> tag_value"

text \<open>JavaScript's \<open>String(v)\<close> on a tag element.\<close>

fun String_of :: "tag_elem \<Rightarrow> string" where
  "String_of TagTrue = ''true''"
| "String_of (TagStr s) = s"

text \<open>
  \<open>Array.isArray(raw) ? raw.map((t) => String(t)) : [String(raw)]\<close>; a missing tag
  gives the one string \<open>"undefined"\<close>.
\<close>

fun typeTags_of :: "tag_value option \<Rightarrow> string list" where
  "typeTags_of None = [''undefined'']"
| "typeTags_of (Some (TagOne e)) = [String_of e]"
| "typeTags_of (Some (TagMany es)) = map String_of es"

text \<open>Truthiness of a tag value: only \<open>undefined\<close> and the empty string are falsy.\<close>

fun truthy_tag :: "tag_value option \<Rightarrow> bool" where
  "truthy_tag None = False"
| "truthy_tag (Some (TagOne (TagStr s))) = (s \<noteq> [])"
| "truthy_tag (Some _) = True"

text \<open>Truthiness of an optional string parameter (\<open>!name\<close>, \<open>!references\<close>).\<close>

fun truthy_param :: "string option \<Rightarrow> bool" where
  "truthy_param None = False"
| "truthy_param (Some s) = (s \<noteq> [])"

text \<open>The string of a parameter that has passed the truthiness test.\<close>

fun param_string :: "string option \<Rightarrow> string" where
  "param_string None = []"
| "param_string (Some s) = s"

text \<open>The result of \<open>parseSmartTagsOptsString\<close>: positional arguments and named parameters.\<close>

record smart_opts =
  args :: "string list"
  params :: "string \<rightharpoonup> string"

text \<open>
  Every \<open>throw\<close> of the plugin, and \<open>TypeError\<close> for a property read on
  \<open>undefined\<close>.
\<close>

datatype error =
    InvalidInterfaceTag
  | NoDiscriminatorAttribute string
  | TypeWithoutName
  | TypeWithoutReferences
  | BadIdentifier string
  | ReferencedClassNotFound string string
  | MissingPrimaryKey
  | MissingForeignKey
  | UnsupportedMode
  | InvalidReference string
  | NoPrimaryKey string
  | NoMatchingRelation string string
  | TypeError

text \<open>A \<open>for ... of\<close> loop whose body may throw: the first error ends the loop.\<close>

fun foldE :: "('a \<Rightarrow> 's \<Rightarrow> error + 's) \<Rightarrow> 'a list \<Rightarrow> 's \<Rightarrow> error + 's" where
  "foldE f [] s = Inr s"
| "foldE f (x # xs) s = (case f x s of Inl e \<Rightarrow> Inl e | Inr s' \<Rightarrow> foldE f xs s')"

section \<open>Introspection data\<close>

text \<open>
  The introspection's attributes, constraints and classes, with the accessors the plugin
  calls as fields. Object identity of an introspected attribute is its class and number.
  The key columns of a primary-key or foreign-key constraint are always stored, so
  \<open>getAttributes()!\<close> and \<open>getForeignAttributes()!\<close> are lists.
\<close>

record pg_attribute =
  attrelid :: string
  attnum :: int
  attname :: string

record pg_constraint =
  conname :: string
  contype :: string
  confrelid :: "string option"
  getAttributes :: "pg_attribute list"
  getForeignAttributes :: "pg_attribute list"

record pg_class =
  class_id :: string
  relname :: string
  nspname :: string
  classAttributes :: "pg_attribute list"
  getConstraints :: "pg_constraint list"
  getTags :: tags

text \<open>
  Modelled from the spec: \<open>arraysMatch\<close> is imported from grafast, outside this
  plugin's source; the specification says that two key lists match when they
  are positionally equal, not merely equal as sets.
\<close>

definition arraysMatch :: "'a list \<Rightarrow> 'a list \<Rightarrow> bool" where
  "arraysMatch xs ys = list_all2 (=) xs ys"

text \<open>
  Modelled from the spec: \<open>pgClass.getAttribute({ name })\<close> belongs to the introspection
  library; it finds the attribute of that name on the table, if any.
\<close>

definition getAttribute :: "pg_class \<Rightarrow> string \<Rightarrow> pg_attribute option" where
  "getAttribute c n = find (\<lambda>a. attname a = n) (classAttributes c)"

text \<open>\<open>c.getConstraints().find((c) => c.contype === "p")\<close>.\<close>

definition primaryKey :: "pg_class \<Rightarrow> pg_constraint option" where
  "primaryKey c = find (\<lambda>k. contype k = ''p'') (getConstraints c)"

text \<open>The argument of \<open>inflection.resourceRelationName\<close>.\<close>

record relation_details =
  rd_serviceName :: string
  rd_isReferencee :: bool
  rd_isUnique :: bool
  rd_localClass :: pg_class
  rd_localAttributes :: "pg_attribute list"
  rd_foreignClass :: pg_class
  rd_foreignAttributes :: "pg_attribute list"
  rd_pgConstraint :: pg_constraint

text \<open>
  The collaborators the gather hooks call, taken as parameters: the tag parser, the
  identifier parser (\<open>None\<close> when it throws), the memoizing introspection lookups and
  the inflectors. \<^typ>\<open>'c\<close> is what \<open>getCodecFromClass\<close> hands out; \<open>tableType\<close> is
  applied to its result as it is, \<open>undefined\<close> included.
\<close>

record 'c gather_env =
  parseSmartTagsOptsString :: "string \<Rightarrow> int \<Rightarrow> smart_opts"
  parseDatabaseIdentifier :: "string \<Rightarrow> int \<Rightarrow> string \<Rightarrow> (string \<times> string) option"
  getClassByName :: "string \<Rightarrow> string \<Rightarrow> string \<Rightarrow> pg_class option"
  getCodecFromClass :: "string \<Rightarrow> string \<Rightarrow> 'c option"
  tableType :: "'c option \<Rightarrow> string"
  resourceRelationName :: "relation_details \<Rightarrow> string"

section \<open>Polymorphism descriptors\<close>

record single_type_spec =
  st_name :: string
  st_attributes :: "attribute_spec list"

record relational_type_spec =
  rt_name :: string
  rt_references :: string
  rt_relationName :: string

text \<open>
  \<open>types\<close> is an object keyed by the discriminator value: an association list in which
  assigning to an existing key replaces its value in place and a new key goes last. Where
  a later phase walks the object (\<open>Object.values\<close>, \<open>Object.entries\<close>), the list is taken
  in the order of that walk; JavaScript puts keys that look like array indices first, and
  no property below depends on where a key stands.
\<close>

datatype polymorphism =
    PolySingle "string list" "string list" "(string \<times> single_type_spec) list"
  | PolyRelational "string list" "(string \<times> relational_type_spec) list"
  | PolyUnion

text \<open>The fields \<open>commonAttributes\<close> and \<open>typeAttributes\<close>, where the mode has them.\<close>

fun commonAttributes :: "polymorphism \<Rightarrow> string list option" where
  "commonAttributes (PolySingle common ta types) = Some common"
| "commonAttributes _ = None"

fun typeAttributes :: "polymorphism \<Rightarrow> string list option" where
  "typeAttributes (PolySingle common ta types) = Some ta"
| "typeAttributes (PolyRelational ta types) = Some ta"
| "typeAttributes PolyUnion = None"

text \<open>\<open>Object.values(obj)\<close>.\<close>

definition object_values :: "('k \<times> 'v) list \<Rightarrow> 'v list" where
  "object_values al = map snd al"

section \<open>Discovery: the \<open>pgCodecs_recordType_spec\<close> hook\<close>

text \<open>The event of the hook: \<open>const { pgClass, spec, serviceName } = event\<close>.\<close>

record record_event =
  event_pgClass :: pg_class
  extension_tags :: "tags option"
  event_serviceName :: string

text \<open>
  \<open>args: [typeValue]\<close>: the first positional argument; with none, \<open>typeValue\<close> is
  \<open>undefined\<close> and the property key it is used as is the string \<open>"undefined"\<close>.
\<close>

definition typeValue_of :: "smart_opts \<Rightarrow> string" where
  "typeValue_of opts = (case args opts of [] \<Rightarrow> ''undefined'' | a # _ \<Rightarrow> a)"

text \<open>\<open>attributes?.split(",").map(parseAttribute) ?? []\<close>.\<close>

definition override_specs :: "string option \<Rightarrow> attribute_spec list" where
  "override_specs attributes =
     (case attributes of
        None \<Rightarrow> []
      | Some a \<Rightarrow> map parseAttribute (split_on (CHR '','') a))"

text \<open>One turn of the single-mode loop over the type tags.\<close>

definition single_type_step ::
  "'c gather_env \<Rightarrow> string \<Rightarrow> (string \<times> single_type_spec) list \<times> string set
     \<Rightarrow> error + (string \<times> single_type_spec) list \<times> string set" where
  "single_type_step E typeTag st =
     (let opts = parseSmartTagsOptsString E typeTag 1;
          typeValue = typeValue_of opts;
          name = params opts ''name'';
          attributes = params opts ''attributes''
      in if \<not> truthy_param name then Inl TypeWithoutName
         else
           let attrs = override_specs attributes
           in Inr (AList.update typeValue
                     \<lparr> st_name = param_string name, st_attributes = attrs \<rparr> (fst st),
                   snd st \<union> set (map attribute attrs)))"

text \<open>The attribute names of the table: \<open>attnum >= 1\<close> leaves the system columns out.\<close>

definition attributeNames :: "pg_class \<Rightarrow> string list" where
  "attributeNames c = map attname (filter (\<lambda>a. attnum a \<ge> 1) (classAttributes c))"

definition discover_single :: "'c gather_env \<Rightarrow> record_event \<Rightarrow> tags \<Rightarrow> string \<Rightarrow> error + polymorphism" where
  "discover_single E ev tg type =
     (case getAttribute (event_pgClass ev) type of
        None \<Rightarrow> Inl (NoDiscriminatorAttribute type)
      | Some attr \<Rightarrow>
          (case foldE (single_type_step E) (typeTags_of (tg ''type'')) ([], {}) of
             Inl e \<Rightarrow> Inl e
           | Inr (types, specificAttributes) \<Rightarrow>
               Inr (PolySingle
                      (filter (\<lambda>n. n \<notin> specificAttributes) (attributeNames (event_pgClass ev)))
                      [type] types)))"

text \<open>
  The search for the foreign key that links the referenced table to the root:
  \<open>referencedClass.getConstraints().find(...)\<close>.
\<close>

definition find_link_constraint ::
  "pg_class \<Rightarrow> pg_class \<Rightarrow> pg_constraint \<Rightarrow> pg_constraint \<Rightarrow> pg_constraint option" where
  "find_link_constraint root referencedClass pk remotePk =
     find (\<lambda>c. contype c = ''f'' \<and> confrelid c = Some (class_id root)
               \<and> arraysMatch (getAttributes c) (getAttributes remotePk)
               \<and> arraysMatch (getForeignAttributes c) (getAttributes pk))
          (getConstraints referencedClass)"

text \<open>
  The second half of a turn of the relational-mode loop, once the referenced class is
  found: both primary keys, the linking foreign key, and the entry stored in \<open>types\<close>.
\<close>

definition relational_type_entry ::
  "'c gather_env \<Rightarrow> record_event \<Rightarrow> string \<Rightarrow> pg_class \<Rightarrow> error + relational_type_spec" where
  "relational_type_entry E ev references referencedClass =
     (case (primaryKey (event_pgClass ev), primaryKey referencedClass) of
        (Some pk, Some remotePk) \<Rightarrow>
          (case find_link_constraint (event_pgClass ev) referencedClass pk remotePk of
             None \<Rightarrow> Inl MissingForeignKey
           | Some pgConstraint \<Rightarrow>
              (let codec = getCodecFromClass E (event_serviceName ev) (class_id referencedClass)
               in Inr \<lparr> rt_name = tableType E codec,
                        rt_references = references,
                        rt_relationName = resourceRelationName E
                          \<lparr> rd_serviceName = event_serviceName ev,
                            rd_isReferencee = True,
                            rd_isUnique = True,
                            rd_localClass = event_pgClass ev,
                            rd_localAttributes = getAttributes pk,
                            rd_foreignClass = referencedClass,
                            rd_foreignAttributes = getAttributes remotePk,
                            rd_pgConstraint = pgConstraint \<rparr> \<rparr>))
      | _ \<Rightarrow> Inl MissingPrimaryKey)"

text \<open>One turn of the relational-mode loop over the type tags.\<close>

definition relational_type_step ::
  "'c gather_env \<Rightarrow> record_event \<Rightarrow> string \<Rightarrow> (string \<times> relational_type_spec) list
     \<Rightarrow> error + (string \<times> relational_type_spec) list" where
  "relational_type_step E ev typeTag types =
     (let opts = parseSmartTagsOptsString E typeTag 1;
          typeValue = typeValue_of opts;
          references = params opts ''references''
      in if \<not> truthy_param references then Inl TypeWithoutReferences
         else
           (case parseDatabaseIdentifier E (param_string references) 2 (nspname (event_pgClass ev)) of
              None \<Rightarrow> Inl (BadIdentifier (param_string references))
            | Some (namespaceName, tableName) \<Rightarrow>
               (case getClassByName E (event_serviceName ev) namespaceName tableName of
                  None \<Rightarrow> Inl (ReferencedClassNotFound namespaceName tableName)
                | Some referencedClass \<Rightarrow>
                   (case relational_type_entry E ev (param_string references) referencedClass of
                      Inl e \<Rightarrow> Inl e
                    | Inr entry \<Rightarrow> Inr (AList.update typeValue entry types)))))"

definition discover_relational :: "'c gather_env \<Rightarrow> record_event \<Rightarrow> tags \<Rightarrow> string \<Rightarrow> error + polymorphism" where
  "discover_relational E ev tg type =
     (case getAttribute (event_pgClass ev) type of
        None \<Rightarrow> Inl (NoDiscriminatorAttribute type)
      | Some attr \<Rightarrow>
          (case foldE (relational_type_step E ev) (typeTags_of (tg ''type'')) [] of
             Inl e \<Rightarrow> Inl e
           | Inr types \<Rightarrow> Inr (PolyRelational [type] types)))"

text \<open>\<open>const { type = "type" } = params\<close>: the default applies when the parameter is absent.\<close>

definition discriminator_name :: "smart_opts \<Rightarrow> string" where
  "discriminator_name opts = (case params opts ''type'' of None \<Rightarrow> ''type'' | Some t \<Rightarrow> t)"

text \<open>\<open>extensions.tags.interface ?? pgClass.getTags().interface\<close>.\<close>

definition interfaceTag_of :: "record_event \<Rightarrow> tags \<Rightarrow> tag_value option" where
  "interfaceTag_of ev tg =
     (case tg ''interface'' of
        None \<Rightarrow> getTags (event_pgClass ev) ''interface''
      | Some v \<Rightarrow> Some v)"

text \<open>
  The hook. \<open>Inr None\<close>: the table has no interface tag and \<open>spec.polymorphism\<close> is left
  alone; \<open>Inr (Some p)\<close>: \<open>spec.polymorphism\<close> is set to \<open>p\<close>; \<open>Inl e\<close>: the hook threw.
\<close>

definition pgCodecs_recordType_spec :: "'c gather_env \<Rightarrow> record_event \<Rightarrow> error + polymorphism option" where
  "pgCodecs_recordType_spec E ev =
     (case extension_tags ev of
        None \<Rightarrow> Inl TypeError
      | Some tg \<Rightarrow>
         (let interfaceTag = interfaceTag_of ev tg
          in if \<not> truthy_tag interfaceTag then Inr None
             else
               (case interfaceTag of
                  Some (TagOne (TagStr s)) \<Rightarrow>
                    (let opts = parseSmartTagsOptsString E s 0;
                         mode = params opts ''mode''
                     in if mode = Some ''single'' then
                          map_sum id Some (discover_single E ev tg (discriminator_name opts))
                        else if mode = Some ''relational'' then
                          map_sum id Some (discover_relational E ev tg (discriminator_name opts))
                        else if mode = Some ''union'' then Inr (Some PolyUnion)
                        else Inl UnsupportedMode)
                | _ \<Rightarrow> Inl InvalidInterfaceTag)))"

section \<open>Discovery: the properties in the specification's words\<close>

text \<open>The attributes named in the override list of one type tag, and of any type tag.\<close>

definition tag_override_names :: "'c gather_env \<Rightarrow> string \<Rightarrow> string set" where
  "tag_override_names E typeTag =
     set (map attribute (override_specs (params (parseSmartTagsOptsString E typeTag 1) ''attributes'')))"

definition override_named :: "'c gather_env \<Rightarrow> string list \<Rightarrow> string set" where
  "override_named E typeTags = (\<Union>t \<in> set typeTags. tag_override_names E t)"

text \<open>
  The specification's condition for a relational subtype: both tables have a primary key,
  and the referenced table has a foreign key to the root whose local attributes are,
  position by position, the referenced table's primary key and whose foreign attributes
  are, position by position, the root's primary key.
\<close>

definition subtype_link_exists :: "pg_class \<Rightarrow> pg_class \<Rightarrow> bool" where
  "subtype_link_exists root referencedClass =
     (case (primaryKey root, primaryKey referencedClass) of
        (Some pk, Some remotePk) \<Rightarrow>
           list_ex (\<lambda>c. contype c = ''f'' \<and> confrelid c = Some (class_id root)
                       \<and> getAttributes c = getAttributes remotePk
                       \<and> getForeignAttributes c = getAttributes pk)
                   (getConstraints referencedClass)
      | _ \<Rightarrow> False)"

section \<open>Codecs, resources and relations\<close>

text \<open>
  An attribute of a codec. The attribute's own codec is an object that is copied by
  reference: it is named here. The three flags are optional in the source.
\<close>

record codec_attribute =
  attr_codec :: string
  notNull :: "bool option"
  hasDefault :: "bool option"
  via :: "string option"
  identicalVia :: "string option"
  restrictedAccess :: "bool option"
  description :: "string option"
  attr_tags :: tags

text \<open>
  A ref of a codec: its definition (with the behavior stored under
  \<open>extensions.tags.behavior\<close>) and its paths, each path a list of relation names.
\<close>

record ref_definition =
  singular :: bool
  singleRecordFieldName :: string
  listFieldName :: string
  connectionFieldName :: string
  ref_behavior :: "string list"

record codec_ref =
  definition_of :: ref_definition
  paths :: "string list list"

text \<open>
  A codec. \<open>attributes\<close> and \<open>refs\<close> are objects that may be missing; a missing
  \<open>extensions\<close> or \<open>extensions.tags\<close> reads, through \<open>?.\<close>, like an empty tag object.
\<close>

record pg_codec =
  codec_name :: string
  codec_attributes :: "(string \<times> codec_attribute) list option"
  codec_polymorphism :: "polymorphism option"
  codec_refs :: "(string \<times> codec_ref) list option"
  codec_tags :: tags
  isAnonymous :: bool

record pg_resource =
  resource_codec :: pg_codec
  resource_tags :: tags

text \<open>
  A relation of the registry. \<open>relation_identity\<close> stands for the identity of the
  relation object, which \<open>Array.prototype.includes\<close> compares.
\<close>

record pg_relation =
  relation_identity :: nat
  localCodec :: pg_codec
  remoteResource :: pg_resource
  localAttributes :: "string list"
  remoteAttributes :: "string list"
  isUnique :: bool
  isReferencee :: bool
  relation_tags :: tags

text \<open>\<open>Object.entries(obj)\<close> and the declared names of a polymorphism's types.\<close>

definition object_entries :: "('k \<times> 'v) list \<Rightarrow> ('k \<times> 'v) list" where
  "object_entries al = al"

fun relational_types :: "polymorphism option \<Rightarrow> (string \<times> relational_type_spec) list option" where
  "relational_types (Some (PolyRelational ta types)) = Some types"
| "relational_types _ = None"

fun declared_type_names :: "polymorphism \<Rightarrow> string list" where
  "declared_type_names (PolySingle common ta types) = map st_name (object_values types)"
| "declared_type_names (PolyRelational ta types) = map rt_name (object_values types)"
| "declared_type_names PolyUnion = []"

section \<open>Schema hooks\<close>

subsection \<open>\<open>String.prototype.trim\<close>\<close>

text \<open>
  The white space \<open>trim\<close> removes, for the one-byte characters: tab, line feed,
  vertical tab, form feed, carriage return, space and no-break space.
\<close>

definition js_whitespace :: "char \<Rightarrow> bool" where
  "js_whitespace c = (of_char c \<in> {9, 10, 11, 12, 13, 32, 160 :: nat})"

definition trim :: "string \<Rightarrow> string" where
  "trim s = rev (dropWhile js_whitespace (rev (dropWhile js_whitespace s)))"

subsection \<open>The \<open>init\<close> hook\<close>

text \<open>
  What the hook asks of the build object and the inflection: parameters. \<^typ>\<open>'ty\<close> is
  the type of constructed GraphQL types; \<open>getTypeByName\<close> is \<open>None\<close> for a name that
  resolves to no type.
\<close>

record 'ty build =
  pgCodecMatches :: "pg_codec \<Rightarrow> string \<Rightarrow> bool"
  inflection_tableType :: "pg_codec \<Rightarrow> string"
  inflection_tableConnectionType :: "pg_codec \<Rightarrow> string"
  inflection_tableEdgeType :: "pg_codec \<Rightarrow> string"
  inflection_connectionType :: "string \<Rightarrow> string"
  inflection_edgeType :: "string \<Rightarrow> string"
  pgForbidSetofFunctionsToReturnNull :: bool
  getTypeByName :: "string \<Rightarrow> 'ty option"
  pgRelations :: "string \<Rightarrow> (string \<rightharpoonup> pg_relation) option"

text \<open>
  The calls the hook makes on the build object, in order (each call is taken to return
  normally). A union is registered with the codecs its \<open>types\<close> thunk closes over.
\<close>

datatype registration =
    RegisterInterfaceType string pg_codec
  | SetGraphQLTypeForPgCodec pg_codec string
  | RegisterCursorConnection string string string bool
  | RegisterObjectType string pg_codec string "attribute_spec list"
  | RegisterUnionType string "pg_codec list"

text \<open>The first recoverable block of the loop: the interface of a polymorphic codec.\<close>

definition register_interface :: "'ty build \<Rightarrow> pg_codec \<Rightarrow> registration list" where
  "register_interface B codec =
     (let interfaceTypeName = inflection_tableType B codec
      in [RegisterInterfaceType interfaceTypeName codec,
          SetGraphQLTypeForPgCodec codec interfaceTypeName,
          RegisterCursorConnection interfaceTypeName
            (inflection_tableConnectionType B codec) (inflection_tableEdgeType B codec)
            (pgForbidSetofFunctionsToReturnNull B)])"

definition register_single_type :: "'ty build \<Rightarrow> pg_codec \<Rightarrow> string \<times> single_type_spec \<Rightarrow> registration list" where
  "register_single_type B codec entry =
     (let tableTypeName = st_name (snd entry)
      in [RegisterObjectType tableTypeName codec (fst entry) (st_attributes (snd entry)),
          RegisterCursorConnection tableTypeName
            (inflection_connectionType B tableTypeName) (inflection_edgeType B tableTypeName)
            (pgForbidSetofFunctionsToReturnNull B)])"

definition detect_interface :: "'ty build \<Rightarrow> pg_codec \<Rightarrow> registration list" where
  "detect_interface B codec =
     (case codec_polymorphism codec of
        None \<Rightarrow> []
      | Some polymorphism \<Rightarrow>
          if \<not> pgCodecMatches B codec ''table'' \<or> isAnonymous codec then []
          else if \<not> pgCodecMatches B codec ''select'' then []
          else (case polymorphism of
                  PolySingle common ta types \<Rightarrow>
                    register_interface B codec
                      @ concat (map (register_single_type B codec) (object_entries types))
                | PolyRelational ta types \<Rightarrow> register_interface B codec
                | PolyUnion \<Rightarrow> register_interface B codec))"

text \<open>
  The second recoverable block: union membership. \<open>unionsToRegister\<close> is a \<open>Map\<close>, kept
  in insertion order; \<open>set\<close> of a new key goes last, \<open>push\<close> extends the list in place.
\<close>

definition add_membership ::
  "string \<Rightarrow> pg_codec \<Rightarrow> (string \<times> pg_codec list) list \<Rightarrow> (string \<times> pg_codec list) list" where
  "add_membership unionName codec unionsToRegister =
     (case map_of unionsToRegister unionName of
        None \<Rightarrow> unionsToRegister @ [(unionName, [codec])]
      | Some list \<Rightarrow> AList.update unionName (list @ [codec]) unionsToRegister)"

text \<open>
  The loop over the memberships of one codec: the state it reaches, and the error when it
  throws. A membership that is \<open>true\<close> (a tag with no value) has no \<open>trim\<close>: the call
  throws a \<open>TypeError\<close>, after the memberships before it were added.
\<close>

fun membership_loop ::
  "pg_codec \<Rightarrow> tag_elem list \<Rightarrow> (string \<times> pg_codec list) list
     \<Rightarrow> error option \<times> (string \<times> pg_codec list) list" where
  "membership_loop codec [] unionsToRegister = (None, unionsToRegister)"
| "membership_loop codec (TagTrue # memberships) unionsToRegister =
     (Some TypeError, unionsToRegister)"
| "membership_loop codec (TagStr membership # memberships) unionsToRegister =
     membership_loop codec memberships (add_membership (trim membership) codec unionsToRegister)"

text \<open>
  Modelled from the spec: \<open>build.recoverable\<close> belongs to the build object, outside
  this plugin's source; the specification says that such a block is an isolated failure
  boundary (run a unit, capture the error, proceed): the error is dropped and the state
  reached is kept.
\<close>

definition recoverable :: "error option \<times> 's \<Rightarrow> 's" where
  "recoverable outcome = snd outcome"

text \<open>\<open>Array.isArray(raw) ? raw : [raw]\<close>, after the truthiness test.\<close>

definition memberships_of :: "pg_codec \<Rightarrow> tag_elem list" where
  "memberships_of codec =
     (let rawUnionMember = codec_tags codec ''unionMember''
      in if \<not> truthy_tag rawUnionMember then []
         else (case rawUnionMember of
                 Some (TagMany es) \<Rightarrow> es
               | Some (TagOne e) \<Rightarrow> [e]
               | None \<Rightarrow> []))"

definition detect_union_membership ::
  "pg_codec \<Rightarrow> (string \<times> pg_codec list) list \<Rightarrow> (string \<times> pg_codec list) list" where
  "detect_union_membership codec unionsToRegister =
     recoverable (membership_loop codec (memberships_of codec) unionsToRegister)"

text \<open>
  The loop over the codecs: the state is the registrations made so far and
  \<open>unionsToRegister\<close>. Codecs without attributes are skipped.
\<close>

fun scan_codecs ::
  "'ty build \<Rightarrow> pg_codec list \<Rightarrow> registration list \<times> (string \<times> pg_codec list) list
     \<Rightarrow> registration list \<times> (string \<times> pg_codec list) list" where
  "scan_codecs B [] st = st"
| "scan_codecs B (codec # codecs) st =
     (if codec_attributes codec = None then scan_codecs B codecs st
      else scan_codecs B codecs
             (fst st @ detect_interface B codec, detect_union_membership codec (snd st)))"

text \<open>The accumulated \<open>unionsToRegister\<close> and the registrations of the whole hook.\<close>

definition unionsToRegister :: "'ty build \<Rightarrow> pg_codec list \<Rightarrow> (string \<times> pg_codec list) list" where
  "unionsToRegister B codecs = snd (scan_codecs B codecs ([], []))"

definition init :: "'ty build \<Rightarrow> pg_codec list \<Rightarrow> registration list" where
  "init B codecs =
     (let st = scan_codecs B codecs ([], [])
      in fst st @ map (\<lambda>(unionName, codecs). RegisterUnionType unionName codecs) (snd st))"

text \<open>
  The \<open>types\<close> thunk of a registered union: the types of the codecs, by name, without
  those that resolve to nothing.
\<close>

definition union_types :: "'ty build \<Rightarrow> pg_codec list \<Rightarrow> 'ty list" where
  "union_types B codecs =
     List.map_filter (\<lambda>codec. getTypeByName B (inflection_tableType B codec)) codecs"

subsection \<open>The \<open>GraphQLSchema_types\<close> hook\<close>

text \<open>
  The scope of a registered type, as far as the hook reads it. The array the hook
  extends may receive \<open>undefined\<close> (\<open>None\<close>) when a name resolves to no type.
\<close>

record 'ty type_registry =
  getAllTypes :: "'ty list"
  isInterfaceType :: "'ty \<Rightarrow> bool"
  scopeByType :: "'ty \<Rightarrow> polymorphism option option"

definition forced_types :: "'ty build \<Rightarrow> 'ty type_registry \<Rightarrow> 'ty \<Rightarrow> 'ty option list" where
  "forced_types B T type =
     (if isInterfaceType T type then
        (case scopeByType T type of
           None \<Rightarrow> []
         | Some scope_pgPolymorphism \<Rightarrow>
            (case scope_pgPolymorphism of
               None \<Rightarrow> []
             | Some polymorphism \<Rightarrow>
                (case polymorphism of
                   PolyUnion \<Rightarrow> []
                 | _ \<Rightarrow> map (getTypeByName B) (declared_type_names polymorphism))))
      else [])"

definition GraphQLSchema_types :: "'ty option list \<Rightarrow> 'ty build \<Rightarrow> 'ty type_registry \<Rightarrow> 'ty option list" where
  "GraphQLSchema_types types B T = types @ concat (map (forced_types B T) (getAllTypes T))"

subsection \<open>The relation behavior callback\<close>

text \<open>A behavior is a string, or an array of behaviors.\<close>

datatype behavior = BehaviorString string | BehaviorList "behavior list"






section \<open>Schema hooks: the properties in the specification's words\<close>

text \<open>
  The union names a codec is a member of, one per tag occurrence, in tag order: the
  trimmed memberships up to the first one that is no string.
\<close>

fun strings_before_true :: "tag_elem list \<Rightarrow> string list" where
  "strings_before_true [] = []"
| "strings_before_true (TagTrue # es) = []"
| "strings_before_true (TagStr s # es) = s # strings_before_true es"




text \<open>A registration of the union named \<open>u\<close>.\<close>

fun registers_union :: "string \<Rightarrow> registration \<Rightarrow> bool" where
  "registers_union u (RegisterUnionType n codecs) = (n = u)"
| "registers_union u _ = False"







section \<open>The registry hooks\<close>

text \<open>
  Codecs are objects that both hooks change in place, and that several tables'
  descriptors may share: the state is a store from codec identities \<^typ>\<open>'c\<close> (what
  \<open>getCodecFromClass\<close> hands out) to codecs.
\<close>

type_synonym 'c codecs = "'c \<Rightarrow> pg_codec"

text \<open>\<open>resource.extensions.pg\<close>, and a resource (or its options) of the registry.\<close>

record pg_extension =
  ext_schemaName :: string
  ext_serviceName :: string
  ext_name :: string

record 'c resource_options =
  ro_parameters :: bool
  ro_codec :: 'c
  ro_pg :: "pg_extension option"

text \<open>
  The collaborators of the registry hooks, on top of those of Discovery: the resource
  options of a class, the relations of the final registry by codec name (an object that
  may be missing) and the inflectors of a relation's field names, each applied to the
  codec and the relation name.
\<close>

record 'c registry_env = "'c gather_env" +
  getResourceOptions :: "string \<Rightarrow> pg_class \<Rightarrow> 'c resource_options option"
  registry_pgRelations :: "string \<Rightarrow> (string \<times> pg_relation) list option"
  singleRelationBackwards :: "'c \<Rightarrow> string \<Rightarrow> string"
  singleRelation :: "'c \<Rightarrow> string \<Rightarrow> string"
  manyRelationConnection :: "'c \<Rightarrow> string \<Rightarrow> string"
  manyRelationList :: "'c \<Rightarrow> string \<Rightarrow> string"

text \<open>
  Both hooks open their loop over the declared types of a relational root with the same
  statements: resolve the reference, fetch the codec of the referenced table (and
  \<open>continue\<close> when there is none; the finalize hook also when it has no attributes),
  find both primary keys and the linking foreign key, and compute the shared relation
  name. \<open>Inr None\<close> is the \<open>continue\<close>; otherwise the referenced class, its codec and
  the shared relation name come back.
\<close>

definition resolve_subtype ::
  "bool \<Rightarrow> ('c, 'x) gather_env_scheme \<Rightarrow> pg_extension \<Rightarrow> pg_class \<Rightarrow> 'c codecs
     \<Rightarrow> relational_type_spec \<Rightarrow> error + (pg_class \<times> 'c \<times> string) option" where
  "resolve_subtype needAttributes E pg pgClass \<sigma> spec =
     (case parseDatabaseIdentifier E (rt_references spec) 2 (ext_schemaName pg) of
        None \<Rightarrow> Inl (BadIdentifier (rt_references spec))
      | Some (schemaName, tableName) \<Rightarrow>
         (case getClassByName E (ext_serviceName pg) schemaName tableName of
            None \<Rightarrow> Inl (InvalidReference (rt_references spec))
          | Some pgRelatedClass \<Rightarrow>
             (case getCodecFromClass E (ext_serviceName pg) (class_id pgRelatedClass) of
                None \<Rightarrow> Inr None
              | Some otherCodec \<Rightarrow>
                 if needAttributes \<and> codec_attributes (\<sigma> otherCodec) = None then Inr None
                 else
                  (case primaryKey pgRelatedClass of
                     None \<Rightarrow> Inl (NoPrimaryKey (relname pgRelatedClass))
                   | Some pk \<Rightarrow>
                      (case primaryKey pgClass of
                         None \<Rightarrow> Inl (NoPrimaryKey (relname pgClass))
                       | Some remotePk \<Rightarrow>
                          (case find (\<lambda>c. contype c = ''f''
                                       \<and> confrelid c = Some (class_id pgClass)
                                       \<and> arraysMatch (getForeignAttributes c) (getAttributes remotePk)
                                       \<and> arraysMatch (getAttributes c) (getAttributes pk))
                                  (getConstraints pgRelatedClass) of
                             None \<Rightarrow> Inl (NoMatchingRelation (relname pgClass)
                                            (relname pgRelatedClass))
                           | Some pgConstraint \<Rightarrow>
                               Inr (Some (pgRelatedClass, otherCodec,
                                 resourceRelationName E
                                   \<lparr> rd_serviceName = ext_serviceName pg,
                                     rd_isReferencee = False,
                                     rd_isUnique = True,
                                     rd_localClass = pgRelatedClass,
                                     rd_localAttributes = getAttributes pk,
                                     rd_foreignClass = pgClass,
                                     rd_foreignAttributes = getAttributes remotePk,
                                     rd_pgConstraint = pgConstraint \<rparr>))))))))"

subsection \<open>Attribute inheritance: \<open>pgRegistry_PgRegistryBuilder_finalize\<close>\<close>

text \<open>The attribute synthesized on a subtype for a root attribute it does not have.\<close>

definition inherited_attribute :: "string \<Rightarrow> codec_attribute \<Rightarrow> codec_attribute" where
  "inherited_attribute sharedRelationName colSpec =
     \<lparr> attr_codec = attr_codec colSpec,
       notNull = notNull colSpec,
       hasDefault = hasDefault colSpec,
       via = Some sharedRelationName,
       identicalVia = None,
       restrictedAccess = restrictedAccess colSpec,
       description = description colSpec,
       attr_tags = attr_tags colSpec \<rparr>"

text \<open>One turn of the loop over the root's attributes, on the subtype's attributes.\<close>

definition copy_attribute ::
  "string \<Rightarrow> string \<times> codec_attribute \<Rightarrow> (string \<times> codec_attribute) list
     \<Rightarrow> (string \<times> codec_attribute) list" where
  "copy_attribute sharedRelationName entry attrs =
     (case map_of attrs (fst entry) of
        Some existing \<Rightarrow>
          AList.update (fst entry) (existing \<lparr> identicalVia := Some sharedRelationName \<rparr>) attrs
      | None \<Rightarrow>
          AList.update (fst entry) (inherited_attribute sharedRelationName (snd entry)) attrs)"

text \<open>
  The attributes of a codec in the store (none when the object is missing), and the loop
  over \<open>Object.entries(resource.codec.attributes)\<close>, which are taken before the loop runs.
\<close>

definition attributes_of :: "'c codecs \<Rightarrow> 'c \<Rightarrow> (string \<times> codec_attribute) list" where
  "attributes_of \<sigma> c = (case codec_attributes (\<sigma> c) of None \<Rightarrow> [] | Some attrs \<Rightarrow> attrs)"

definition copy_attributes :: "string \<Rightarrow> 'c \<Rightarrow> 'c \<Rightarrow> 'c codecs \<Rightarrow> 'c codecs" where
  "copy_attributes sharedRelationName rootCodec otherCodec \<sigma> =
     \<sigma> (otherCodec := (\<sigma> otherCodec)
          \<lparr> codec_attributes :=
              Some (fold (copy_attribute sharedRelationName)
                      (object_entries (attributes_of \<sigma> rootCodec))
                      (attributes_of \<sigma> otherCodec)) \<rparr>)"

text \<open>One turn of the loop over the declared types of a relational root.\<close>

definition finalize_type ::
  "('c, 'x) gather_env_scheme \<Rightarrow> pg_extension \<Rightarrow> pg_class \<Rightarrow> 'c \<Rightarrow> relational_type_spec
     \<Rightarrow> 'c codecs \<Rightarrow> error + 'c codecs" where
  "finalize_type E pg pgClass rootCodec spec \<sigma> =
     (case resolve_subtype True E pg pgClass \<sigma> spec of
        Inl e \<Rightarrow> Inl e
      | Inr None \<Rightarrow> Inr \<sigma>
      | Inr (Some (pgRelatedClass, otherCodec, sharedRelationName)) \<Rightarrow>
          Inr (copy_attributes sharedRelationName rootCodec otherCodec \<sigma>))"

text \<open>The body of the loop over the resources, and the hook.\<close>

definition finalize_resource ::
  "('c, 'x) gather_env_scheme \<Rightarrow> 'c resource_options \<Rightarrow> 'c codecs \<Rightarrow> error + 'c codecs" where
  "finalize_resource E resource \<sigma> =
     (if ro_parameters resource \<or> codec_attributes (\<sigma> (ro_codec resource)) = None then Inr \<sigma>
      else
        (case ro_pg resource of
           None \<Rightarrow> Inr \<sigma>
         | Some pg \<Rightarrow>
            (case getClassByName E (ext_serviceName pg) (ext_schemaName pg) (ext_name pg) of
               None \<Rightarrow> Inr \<sigma>
             | Some pgClass \<Rightarrow>
                (case relational_types (codec_polymorphism (\<sigma> (ro_codec resource))) of
                   None \<Rightarrow> Inr \<sigma>
                 | Some types \<Rightarrow>
                     foldE (finalize_type E pg pgClass (ro_codec resource))
                       (object_values types) \<sigma>))))"

definition pgRegistry_PgRegistryBuilder_finalize ::
  "('c, 'x) gather_env_scheme \<Rightarrow> 'c resource_options list \<Rightarrow> 'c codecs \<Rightarrow> error + 'c codecs" where
  "pgRegistry_PgRegistryBuilder_finalize E pgResources \<sigma> =
     foldE (finalize_resource E) pgResources \<sigma>"

subsection \<open>Reference synthesis: \<open>pgRegistry_PgRegistry\<close>\<close>

text \<open>
  Modelled from the spec: \<open>getBehavior\<close> lives in \<open>behavior.js\<close>, outside this
  plugin's source; the specification says that the flags of the synthesized reference are
  the union of the flags of the entities it is given. The flags of an entity are the
  strings of its \<open>behavior\<close> tag.
\<close>

fun tag_strings :: "tag_value option \<Rightarrow> string list" where
  "tag_strings None = []"
| "tag_strings (Some (TagOne e)) = strings_before_true [e]"
| "tag_strings (Some (TagMany es)) = concat (map (\<lambda>e. strings_before_true [e]) es)"

definition behavior_flags :: "tags \<Rightarrow> string list" where
  "behavior_flags tg = tag_strings (tg ''behavior'')"

definition getBehavior :: "tags list \<Rightarrow> string list" where
  "getBehavior extensions = concat (map behavior_flags extensions)"

text \<open>The ref built for one relation of the root.\<close>

definition synthesized_ref ::
  "'c registry_env \<Rightarrow> 'c \<Rightarrow> string \<Rightarrow> string \<times> pg_relation \<Rightarrow> codec_ref" where
  "synthesized_ref E rootCodec sharedRelationName entry =
     (let relationName = fst entry;
          relationSpec = snd entry;
          behavior = getBehavior
            [codec_tags (resource_codec (remoteResource relationSpec)),
             resource_tags (remoteResource relationSpec),
             relation_tags relationSpec];
          singleRecordFieldName =
            (if isReferencee relationSpec then singleRelationBackwards E rootCodec relationName
             else singleRelation E rootCodec relationName);
          connectionFieldName = manyRelationConnection E rootCodec relationName;
          listFieldName = manyRelationList E rootCodec relationName
      in \<lparr> definition_of =
             \<lparr> singular = isUnique relationSpec,
               singleRecordFieldName = singleRecordFieldName,
               listFieldName = listFieldName,
               connectionFieldName = connectionFieldName,
               ref_behavior = behavior \<rparr>,
           paths = [[sharedRelationName, relationName]] \<rparr>)"

text \<open>
  The refs of a codec in the store, and one turn of the loop over the root's relations:
  the refs object is created when missing, and the ref is stored under the relation's
  name.
\<close>

definition refs_of :: "'c codecs \<Rightarrow> 'c \<Rightarrow> (string \<times> codec_ref) list" where
  "refs_of \<sigma> c = (case codec_refs (\<sigma> c) of None \<Rightarrow> [] | Some refs \<Rightarrow> refs)"

definition install_ref ::
  "'c registry_env \<Rightarrow> 'c \<Rightarrow> string \<Rightarrow> 'c resource_options option \<Rightarrow> string \<times> pg_relation
     \<Rightarrow> 'c codecs \<Rightarrow> error + 'c codecs" where
  "install_ref E rootCodec sharedRelationName otherResourceOptions entry \<sigma> =
     (case otherResourceOptions of
        None \<Rightarrow> Inl TypeError
      | Some options \<Rightarrow>
          Inr (\<sigma> (ro_codec options := (\<sigma> (ro_codec options))
                 \<lparr> codec_refs :=
                     Some (AList.update (fst entry)
                             (synthesized_ref E rootCodec sharedRelationName entry)
                             (refs_of \<sigma> (ro_codec options))) \<rparr>)))"

text \<open>
  One turn of the loop over the declared types. \<open>Object.entries(relations)\<close> throws when
  the registry has no relations object for the root's codec.
\<close>

definition synthesize_type ::
  "'c registry_env \<Rightarrow> pg_extension \<Rightarrow> pg_class \<Rightarrow> 'c
     \<Rightarrow> (string \<times> pg_relation) list option \<Rightarrow> relational_type_spec
     \<Rightarrow> 'c codecs \<Rightarrow> error + 'c codecs" where
  "synthesize_type E pg pgClass rootCodec relations spec \<sigma> =
     (case resolve_subtype False E pg pgClass \<sigma> spec of
        Inl e \<Rightarrow> Inl e
      | Inr None \<Rightarrow> Inr \<sigma>
      | Inr (Some (pgRelatedClass, otherCodec, sharedRelationName)) \<Rightarrow>
          (let otherResourceOptions = getResourceOptions E (ext_serviceName pg) pgRelatedClass
           in case relations of
                None \<Rightarrow> Inl TypeError
              | Some rels \<Rightarrow>
                  foldE (install_ref E rootCodec sharedRelationName otherResourceOptions)
                    (object_entries rels) \<sigma>))"

definition synthesize_resource ::
  "'c registry_env \<Rightarrow> 'c resource_options \<Rightarrow> 'c codecs \<Rightarrow> error + 'c codecs" where
  "synthesize_resource E resource \<sigma> =
     (if ro_parameters resource \<or> codec_attributes (\<sigma> (ro_codec resource)) = None then Inr \<sigma>
      else
        (case ro_pg resource of
           None \<Rightarrow> Inr \<sigma>
         | Some pg \<Rightarrow>
            (case getClassByName E (ext_serviceName pg) (ext_schemaName pg) (ext_name pg) of
               None \<Rightarrow> Inr \<sigma>
             | Some pgClass \<Rightarrow>
                (let relations = registry_pgRelations E (codec_name (\<sigma> (ro_codec resource)))
                 in case relational_types (codec_polymorphism (\<sigma> (ro_codec resource))) of
                      None \<Rightarrow> Inr \<sigma>
                    | Some types \<Rightarrow>
                        foldE (synthesize_type E pg pgClass (ro_codec resource) relations)
                          (object_values types) \<sigma>))))"

definition pgRegistry_PgRegistry ::
  "'c registry_env \<Rightarrow> 'c resource_options list \<Rightarrow> 'c codecs \<Rightarrow> error + 'c codecs" where
  "pgRegistry_PgRegistry E pgResources \<sigma> = foldE (synthesize_resource E) pgResources \<sigma>"

section \<open>The registry hooks: invariants of a run over one root\<close>

text \<open>An attribute with its \<open>identicalVia\<close> mark forgotten.\<close>

definition forget_identicalVia :: "codec_attribute \<Rightarrow> codec_attribute" where
  "forget_identicalVia a = a \<lparr> identicalVia := None \<rparr>"





section \<open>Worked examples\<close>

text \<open>
  A finite table standing for the tag parser on the tags of the examples (the parser
  itself is a collaborator).
\<close>

definition ex_parse :: "string \<Rightarrow> int \<Rightarrow> smart_opts" where
  "ex_parse s n =
     (if s = ''mode:single type:kind'' then
        \<lparr> args = [], params = [''mode'' \<mapsto> ''single'', ''type'' \<mapsto> ''kind''] \<rparr>
      else if s = ''employee name:Employee attributes:salary!'' then
        \<lparr> args = [''employee''],
          params = [''name'' \<mapsto> ''Employee'', ''attributes'' \<mapsto> ''salary!''] \<rparr>
      else if s = ''contractor name:Contractor attributes:hourly_rate'' then
        \<lparr> args = [''contractor''],
          params = [''name'' \<mapsto> ''Contractor'', ''attributes'' \<mapsto> ''hourly_rate''] \<rparr>
      else if s = ''intern name:Intern attributes:stipend'' then
        \<lparr> args = [''intern''],
          params = [''name'' \<mapsto> ''Intern'', ''attributes'' \<mapsto> ''stipend''] \<rparr>
      else if s = ''mode:relational'' then
        \<lparr> args = [], params = [''mode'' \<mapsto> ''relational''] \<rparr>
      else if s = ''car references:car'' then
        \<lparr> args = [''car''], params = [''references'' \<mapsto> ''car''] \<rparr>
      else if s = ''van references:van'' then
        \<lparr> args = [''van''], params = [''references'' \<mapsto> ''van''] \<rparr>
      else \<lparr> args = [], params = Map.empty \<rparr>)"

definition column :: "string \<Rightarrow> int \<Rightarrow> string \<Rightarrow> pg_attribute" where
  "column rel n nm = \<lparr> attrelid = rel, attnum = n, attname = nm \<rparr>"

text \<open>
  The specification's single-table example: \<open>person\<close> with the columns
  \<open>id, kind, name, salary, hourly_rate\<close> (and a system column).
\<close>

definition person :: pg_class where
  "person = \<lparr> class_id = ''1'', relname = ''person'', nspname = ''public'',
     classAttributes = [column ''1'' (- 6) ''tableoid'', column ''1'' 1 ''id'',
       column ''1'' 2 ''kind'', column ''1'' 3 ''name'', column ''1'' 4 ''salary'',
       column ''1'' 5 ''hourly_rate''],
     getConstraints = [], getTags = Map.empty \<rparr>"

text \<open>
  The root \<open>vehicle\<close> with primary key \<open>(region, id)\<close> and discriminator column \<open>type\<close>;
  \<open>car\<close> with primary key \<open>(region, vehicle_id)\<close> and the foreign key
  \<open>(region, vehicle_id) references vehicle (region, id)\<close>; \<open>van\<close>, the same table
  but for its foreign key, written \<open>(vehicle_id, region) references vehicle (id, region)\<close>.
\<close>

definition vehicle_pkey :: pg_constraint where
  "vehicle_pkey = \<lparr> conname = ''vehicle_pkey'', contype = ''p'', confrelid = None,
     getAttributes = [column ''10'' 1 ''region'', column ''10'' 2 ''id''],
     getForeignAttributes = [] \<rparr>"

definition car_pkey :: pg_constraint where
  "car_pkey = \<lparr> conname = ''car_pkey'', contype = ''p'', confrelid = None,
     getAttributes = [column ''11'' 1 ''region'', column ''11'' 2 ''vehicle_id''],
     getForeignAttributes = [] \<rparr>"

definition car_vehicle_fkey :: pg_constraint where
  "car_vehicle_fkey = \<lparr> conname = ''car_vehicle_fkey'', contype = ''f'', confrelid = Some ''10'',
     getAttributes = [column ''11'' 1 ''region'', column ''11'' 2 ''vehicle_id''],
     getForeignAttributes = [column ''10'' 1 ''region'', column ''10'' 2 ''id''] \<rparr>"

definition van_pkey :: pg_constraint where
  "van_pkey = \<lparr> conname = ''van_pkey'', contype = ''p'', confrelid = None,
     getAttributes = [column ''12'' 1 ''region'', column ''12'' 2 ''vehicle_id''],
     getForeignAttributes = [] \<rparr>"

definition van_vehicle_fkey :: pg_constraint where
  "van_vehicle_fkey = \<lparr> conname = ''van_vehicle_fkey'', contype = ''f'', confrelid = Some ''10'',
     getAttributes = [column ''12'' 2 ''vehicle_id'', column ''12'' 1 ''region''],
     getForeignAttributes = [column ''10'' 2 ''id'', column ''10'' 1 ''region''] \<rparr>"

definition vehicle :: pg_class where
  "vehicle = \<lparr> class_id = ''10'', relname = ''vehicle'', nspname = ''public'',
     classAttributes = [column ''10'' 1 ''region'', column ''10'' 2 ''id'',
       column ''10'' 3 ''type''],
     getConstraints = [vehicle_pkey], getTags = Map.empty \<rparr>"

definition car :: pg_class where
  "car = \<lparr> class_id = ''11'', relname = ''car'', nspname = ''public'',
     classAttributes = [column ''11'' 1 ''region'', column ''11'' 2 ''vehicle_id'',
       column ''11'' 3 ''doors''],
     getConstraints = [car_pkey, car_vehicle_fkey], getTags = Map.empty \<rparr>"

definition van :: pg_class where
  "van = \<lparr> class_id = ''12'', relname = ''van'', nspname = ''public'',
     classAttributes = [column ''12'' 1 ''region'', column ''12'' 2 ''vehicle_id'',
       column ''12'' 3 ''payload''],
     getConstraints = [van_pkey, van_vehicle_fkey], getTags = Map.empty \<rparr>"

text \<open>The collaborators of the examples. Codecs are identified by their names.\<close>

definition ex_getClassByName :: "string \<Rightarrow> string \<Rightarrow> string \<Rightarrow> pg_class option" where
  "ex_getClassByName svc ns t =
     (if t = ''vehicle'' then Some vehicle
      else if t = ''car'' then Some car
      else if t = ''van'' then Some van else None)"

definition ex_getCodecFromClass :: "string \<Rightarrow> string \<Rightarrow> string option" where
  "ex_getCodecFromClass svc i =
     (if i = ''10'' then Some ''vehicle''
      else if i = ''11'' then Some ''car''
      else if i = ''12'' then Some ''van'' else None)"

definition ex_tableType :: "string option \<Rightarrow> string" where
  "ex_tableType c = (case c of None \<Rightarrow> [] | Some n \<Rightarrow> ''Type_'' @ n)"

definition ex_resourceRelationName :: "relation_details \<Rightarrow> string" where
  "ex_resourceRelationName d =
     (if rd_isReferencee d then ''backward_'' else ''forward_'') @ conname (rd_pgConstraint d)"

definition ex_env :: "string gather_env" where
  "ex_env = \<lparr> parseSmartTagsOptsString = ex_parse,
     parseDatabaseIdentifier = (\<lambda>r n ns. Some (ns, r)),
     getClassByName = ex_getClassByName,
     getCodecFromClass = ex_getCodecFromClass,
     tableType = ex_tableType,
     resourceRelationName = ex_resourceRelationName \<rparr>"

definition vehicle_event :: "string \<Rightarrow> record_event" where
  "vehicle_event typeTag = \<lparr> event_pgClass = vehicle,
     extension_tags = Some [''interface'' \<mapsto> TagOne (TagStr ''mode:relational''),
                            ''type'' \<mapsto> TagOne (TagStr typeTag)],
     event_serviceName = ''main'' \<rparr>"

definition person_event :: "string \<Rightarrow> tag_value \<Rightarrow> record_event" where
  "person_event interface typeTags = \<lparr> event_pgClass = person,
     extension_tags = Some [''interface'' \<mapsto> TagOne (TagStr interface), ''type'' \<mapsto> typeTags],
     event_serviceName = ''main'' \<rparr>"

definition employee_contractor :: tag_value where
  "employee_contractor = TagMany [TagStr ''employee name:Employee attributes:salary!'',
                                  TagStr ''contractor name:Contractor attributes:hourly_rate'']"

definition intern :: tag_value where
  "intern = TagOne (TagStr ''intern name:Intern attributes:stipend'')"

text \<open>The descriptor Discovery attaches to \<open>vehicle\<close> when its one type tag names \<open>car\<close>.\<close>

definition vehicle_polymorphism :: polymorphism where
  "vehicle_polymorphism = PolyRelational [''type'']
     [(''car'', \<lparr> rt_name = ''Type_car'', rt_references = ''car'',
                  rt_relationName = ''backward_car_vehicle_fkey'' \<rparr>)]"

subsection \<open>A registry\<close>

definition plain_attribute :: "string \<Rightarrow> codec_attribute" where
  "plain_attribute t = \<lparr> attr_codec = t, notNull = Some True, hasDefault = None, via = None,
     identicalVia = None, restrictedAccess = None, description = None,
     attr_tags = Map.empty \<rparr>"

definition vehicle_codec :: pg_codec where
  "vehicle_codec = \<lparr> codec_name = ''vehicle'',
     codec_attributes = Some [(''region'', plain_attribute ''text''),
       (''id'', plain_attribute ''int4''), (''type'', plain_attribute ''text'')],
     codec_polymorphism = Some vehicle_polymorphism, codec_refs = None,
     codec_tags = Map.empty, isAnonymous = False \<rparr>"

text \<open>
  The codec of \<open>car\<close>, which already has a ref named \<open>owner\<close> (with one path of one hop).
\<close>

definition stale_ref :: codec_ref where
  "stale_ref = \<lparr> definition_of = \<lparr> singular = True, singleRecordFieldName = ''owner'',
       listFieldName = ''owners'', connectionFieldName = ''ownersConnection'',
       ref_behavior = [] \<rparr>,
     paths = [[''car_owner'']] \<rparr>"

definition car_codec :: pg_codec where
  "car_codec = \<lparr> codec_name = ''car'',
     codec_attributes = Some [(''region'', plain_attribute ''text''),
       (''vehicle_id'', plain_attribute ''int4''), (''doors'', plain_attribute ''int2'')],
     codec_polymorphism = None, codec_refs = Some [(''owner'', stale_ref)],
     codec_tags = Map.empty, isAnonymous = False \<rparr>"

definition owner_codec :: pg_codec where
  "owner_codec = \<lparr> codec_name = ''owner'',
     codec_attributes = Some [(''id'', plain_attribute ''int4'')],
     codec_polymorphism = None, codec_refs = None,
     codec_tags = [''behavior'' \<mapsto> TagOne (TagStr ''-insert'')], isAnonymous = False \<rparr>"


text \<open>
  The relations of the root: to its owner, and the backward relation to \<open>car\<close>; and the
  relation of \<open>car\<close> to the root.
\<close>

definition vehicle_owner :: pg_relation where
  "vehicle_owner = \<lparr> relation_identity = 1, localCodec = vehicle_codec,
     remoteResource = \<lparr> resource_codec = owner_codec,
                        resource_tags = [''behavior'' \<mapsto> TagOne (TagStr ''-delete'')] \<rparr>,
     localAttributes = [''id''], remoteAttributes = [''id''],
     isUnique = True, isReferencee = False,
     relation_tags = [''behavior'' \<mapsto> TagMany [TagStr ''+list'', TagStr ''-insert'']] \<rparr>"

definition vehicle_to_car :: pg_relation where
  "vehicle_to_car = \<lparr> relation_identity = 2, localCodec = vehicle_codec,
     remoteResource = \<lparr> resource_codec = car_codec, resource_tags = Map.empty \<rparr>,
     localAttributes = [''region'', ''id''], remoteAttributes = [''region'', ''vehicle_id''],
     isUnique = True, isReferencee = True, relation_tags = Map.empty \<rparr>"

definition car_to_vehicle :: pg_relation where
  "car_to_vehicle = \<lparr> relation_identity = 3, localCodec = car_codec,
     remoteResource = \<lparr> resource_codec = vehicle_codec, resource_tags = Map.empty \<rparr>,
     localAttributes = [''region'', ''vehicle_id''], remoteAttributes = [''region'', ''id''],
     isUnique = True, isReferencee = False, relation_tags = Map.empty \<rparr>"

definition vehicle_relations :: "(string \<times> pg_relation) list" where
  "vehicle_relations = [(''owner'', vehicle_owner), (''backward_car_vehicle_fkey'', vehicle_to_car)]"







subsection \<open>A schema build\<close>

text \<open>
  Types are identified by their names; the type of \<open>square\<close> is not constructed. The
  second build has no relations registered for the root.
\<close>

definition ex_build :: "string build" where
  "ex_build = \<lparr> pgCodecMatches = (\<lambda>c b. True),
     inflection_tableType = (\<lambda>c. ''Type_'' @ codec_name c),
     inflection_tableConnectionType = (\<lambda>c. ''Type_'' @ codec_name c @ ''_connection''),
     inflection_tableEdgeType = (\<lambda>c. ''Type_'' @ codec_name c @ ''_edge''),
     inflection_connectionType = (\<lambda>n. n @ ''_connection''),
     inflection_edgeType = (\<lambda>n. n @ ''_edge''),
     pgForbidSetofFunctionsToReturnNull = False,
     getTypeByName = (\<lambda>n. if n = ''Type_car'' \<or> n = ''Type_vehicle'' \<or> n = ''Type_circle''
                           then Some n else None),
     pgRelations = (\<lambda>n. if n = ''vehicle'' then Some (map_of vehicle_relations)
                         else if n = ''car'' then Some [''forward_car_vehicle_fkey'' \<mapsto> car_to_vehicle]
                         else None) \<rparr>"


definition circle :: pg_codec where
  "circle = \<lparr> codec_name = ''circle'', codec_attributes = Some [(''r'', plain_attribute ''float8'')],
     codec_polymorphism = None, codec_refs = None,
     codec_tags = [''unionMember'' \<mapsto> TagMany [TagStr ''Shape'', TagStr ''Shape'']],
     isAnonymous = False \<rparr>"

definition square :: pg_codec where
  "square = \<lparr> codec_name = ''square'', codec_attributes = Some [(''a'', plain_attribute ''float8'')],
     codec_polymorphism = None, codec_refs = None,
     codec_tags = [''unionMember'' \<mapsto> TagOne (TagStr '' Shape '')],
     isAnonymous = False \<rparr>"

definition ex_types :: "string type_registry" where
  "ex_types = \<lparr> getAllTypes = [''Type_vehicle'', ''Type_car''],
     isInterfaceType = (\<lambda>t. t = ''Type_vehicle''),
     scopeByType = (\<lambda>t. if t = ''Type_vehicle'' then Some (Some vehicle_polymorphism) else None) \<rparr>"

section \<open>Facts about splitting\<close>

lemma split_on_nonempty: "split_on sep s \<noteq> []"
  by (induction s) (auto split: list.splits)

lemma split_on_no_sep: "sep \<notin> set s \<Longrightarrow> split_on sep s = [s]"
  by (induction s) auto

lemma split_on_first_sep:
  "sep \<notin> set a \<Longrightarrow> split_on sep (a @ sep # b) = a # split_on sep b"
  by (induction a) auto

lemma endsWith_bang_plain: "plain s \<Longrightarrow> \<not> endsWith_bang s"
  by (metis endsWith_bang_def last_in_set plain_def)

lemma endsWith_bang_snoc: "endsWith_bang (s @ ''!'')"
  by (simp add: endsWith_bang_def)

lemma drop_last_char_snoc: "drop_last_char (s @ ''!'') = s"
  by (simp add: drop_last_char_def butlast_append)

lemma endsWith_bang_gt: "plain r \<Longrightarrow> \<not> endsWith_bang (nm @ CHR ''>'' # r)"
  by (cases r rule: rev_cases) (auto simp: plain_def endsWith_bang_def)

section \<open>Claim C6\<close>

text \<open>
  C6 (as stated, refuted): for the entry \<open>a!>b\<close>, written in the order
  \<open>name[!][>rename]\<close>, parseAttribute does not return the bare name \<open>a\<close> with the
  not-null flag set: the exclamation mark is only recognised as the very last character,
  so the attribute comes back as \<open>a!\<close> with \<open>isNotNull\<close> false.
\<close>

theorem parseAttribute_bang_first_counterexample:
  "parseAttribute (entry_bang_first ''a'' True (Some ''b''))
     = \<lparr> attribute = ''a!'', isNotNull = False, rename = Some ''b'' \<rparr>
   \<and> parseAttribute (entry_bang_first ''a'' True (Some ''b''))
     \<noteq> \<lparr> attribute = ''a'', isNotNull = True, rename = Some ''b'' \<rparr>"
  by (simp add: parseAttribute_def entry_bang_first_def endsWith_bang_def)

text \<open>
  C6 (amended): for every entry of the form \<open>name[>rename][!]\<close> (bare name, optional
  rename suffix, optional not-null mark last), where name and rename contain neither
  marker character, parseAttribute returns the bare name, \<open>isNotNull\<close> true exactly when
  the mark is present, and the rename exactly when the rename part is present. The forms
  \<open>name\<close>, \<open>name!\<close> and \<open>name>rename\<close> of the claim are among these; with both
  suffixes the mark has to come last.
\<close>

theorem parseAttribute_bang_last:
  assumes "plain nm" and "\<forall>r. rn = Some r \<longrightarrow> plain r"
  shows "parseAttribute (entry_bang_last nm nn rn)
           = \<lparr> attribute = nm, isNotNull = nn, rename = rn \<rparr>"
proof -
  have nosep: "CHR ''>'' \<notin> set nm" using assms(1) by (simp add: plain_def)
  show ?thesis
  proof (cases rn)
    case None
    show ?thesis
    proof (cases nn)
      case True
      have "entry_bang_last nm nn rn = nm @ ''!''"
        using None True by (simp add: entry_bang_last_def)
      then show ?thesis
        using None True nosep
        by (simp add: parseAttribute_def endsWith_bang_snoc drop_last_char_snoc
            split_on_no_sep del: append.simps)
    next
      case False
      have "entry_bang_last nm nn rn = nm"
        using None False by (simp add: entry_bang_last_def)
      then show ?thesis
        using None False nosep assms(1)
        by (simp add: parseAttribute_def endsWith_bang_plain split_on_no_sep)
    qed
  next
    case (Some r)
    then have pr: "plain r" using assms(2) by simp
    then have nosep_r: "CHR ''>'' \<notin> set r" by (simp add: plain_def)
    have sp: "split_on (CHR ''>'') (nm @ CHR ''>'' # r) = [nm, r]"
      using nosep nosep_r by (simp add: split_on_first_sep split_on_no_sep)
    show ?thesis
    proof (cases nn)
      case True
      have "entry_bang_last nm nn rn = (nm @ CHR ''>'' # r) @ ''!''"
        using Some True by (simp add: entry_bang_last_def)
      then show ?thesis
        using Some True sp
        by (simp add: parseAttribute_def endsWith_bang_snoc drop_last_char_snoc
            del: append.simps append_assoc)
    next
      case False
      have "entry_bang_last nm nn rn = nm @ CHR ''>'' # r"
        using Some False by (simp add: entry_bang_last_def)
      then show ?thesis
        using Some False sp endsWith_bang_gt [OF pr, of nm]
        by (simp add: parseAttribute_def)
    qed
  qed
qed

theorem parseAttribute_bang_last_witness:
  "parseAttribute ''title>subject!''
     = \<lparr> attribute = ''title'', isNotNull = True, rename = Some ''subject'' \<rparr>"
  using parseAttribute_bang_last [of "''title''" "Some ''subject''" True]
  by (simp add: plain_def entry_bang_last_def)

section \<open>Discovery: general facts\<close>

lemma single_type_step_specific:
  "single_type_step E t st = Inr st' \<Longrightarrow> snd st' = snd st \<union> tag_override_names E t"
  by (auto simp: single_type_step_def tag_override_names_def Let_def split: if_splits)

lemma foldE_single_specific:
  "foldE (single_type_step E) tgs st = Inr st' \<Longrightarrow>
   snd st' = snd st \<union> override_named E tgs"
proof (induction tgs arbitrary: st)
  case Nil
  then show ?case by (simp add: override_named_def)
next
  case (Cons t tgs)
  from Cons.prems obtain st1 where s1: "single_type_step E t st = Inr st1"
    and r: "foldE (single_type_step E) tgs st1 = Inr st'"
    by (auto split: sum.splits)
  have "snd st' = snd st1 \<union> override_named E tgs" using Cons.IH [OF r] .
  also have "snd st1 = snd st \<union> tag_override_names E t"
    using single_type_step_specific [OF s1] .
  finally show ?case by (auto simp: override_named_def)
qed

lemma getAttribute_None: "getAttribute c n = None \<longleftrightarrow> n \<notin> attname ` set (classAttributes c)"
  by (auto simp: getAttribute_def find_None_iff)

lemma arraysMatch_eq: "arraysMatch xs ys \<longleftrightarrow> xs = ys"
  by (simp add: arraysMatch_def list_all2_eq)

lemma map_sum_Some_Inr: "map_sum id Some r = Inr (Some p) \<longleftrightarrow> r = Inr p"
  by (cases r) auto

lemma map_sum_Some_Inl: "map_sum id Some r = Inl e \<longleftrightarrow> r = Inl e"
  by (cases r) auto

lemma discover_single_mode: "discover_single E ev tg d = Inr p \<Longrightarrow> \<exists>c ts. p = PolySingle c [d] ts"
  by (auto simp: discover_single_def split: option.splits sum.splits)

lemma discover_relational_mode: "discover_relational E ev tg d = Inr p \<Longrightarrow> \<exists>ts. p = PolyRelational [d] ts"
  by (auto simp: discover_relational_def split: option.splits sum.splits)

lemma hook_string_tag:
  assumes "extension_tags ev = Some tg" and "interfaceTag_of ev tg = Some (TagOne (TagStr s))"
    and "s \<noteq> []"
  shows "pgCodecs_recordType_spec E ev =
     (let opts = parseSmartTagsOptsString E s 0; mode = params opts ''mode''
      in if mode = Some ''single'' then
           map_sum id Some (discover_single E ev tg (discriminator_name opts))
         else if mode = Some ''relational'' then
           map_sum id Some (discover_relational E ev tg (discriminator_name opts))
         else if mode = Some ''union'' then Inr (Some PolyUnion)
         else Inl UnsupportedMode)"
  using assms by (simp add: pgCodecs_recordType_spec_def)

lemma hook_Some_tag:
  assumes "pgCodecs_recordType_spec E ev = Inr (Some p)" and "extension_tags ev = Some tg"
  obtains s where "interfaceTag_of ev tg = Some (TagOne (TagStr s))" and "s \<noteq> []"
proof -
  from assms have "truthy_tag (interfaceTag_of ev tg)"
    by (auto simp: pgCodecs_recordType_spec_def Let_def split: if_splits)
  moreover from assms have "\<exists>s. interfaceTag_of ev tg = Some (TagOne (TagStr s))"
    by (auto simp: pgCodecs_recordType_spec_def Let_def
        split: if_splits option.splits tag_value.splits tag_elem.splits)
  ultimately show ?thesis using that by auto
qed

lemma hook_single_discover:
  assumes "pgCodecs_recordType_spec E ev = Inr (Some (PolySingle common ta types))"
    and "extension_tags ev = Some tg"
  shows "\<exists>d. discover_single E ev tg d = Inr (PolySingle common ta types)"
proof -
  from hook_Some_tag [OF assms] obtain s
    where s: "interfaceTag_of ev tg = Some (TagOne (TagStr s))" "s \<noteq> []" .
  from assms(1) show ?thesis
    unfolding hook_string_tag [OF assms(2) s]
    by (auto simp: Let_def map_sum_Some_Inr split: if_splits dest: discover_relational_mode)
qed

lemma hook_single_common:
  assumes "pgCodecs_recordType_spec E ev = Inr (Some (PolySingle common ta types))"
    and "extension_tags ev = Some tg"
  shows "common = filter (\<lambda>n. n \<notin> override_named E (typeTags_of (tg ''type'')))
                    (attributeNames (event_pgClass ev))"
proof -
  from hook_single_discover [OF assms]
  obtain d where "discover_single E ev tg d = Inr (PolySingle common ta types)" ..
  then obtain ts sp where f: "foldE (single_type_step E) (typeTags_of (tg ''type'')) ([], {}) = Inr (ts, sp)"
    and c: "common = filter (\<lambda>n. n \<notin> sp) (attributeNames (event_pgClass ev))"
    by (auto simp: discover_single_def split: option.splits sum.splits)
  from foldE_single_specific [OF f] have "sp = override_named E (typeTags_of (tg ''type''))"
    by simp
  with c show ?thesis by simp
qed


lemma find_is_Some: "(\<exists>c. find P xs = Some c) \<longleftrightarrow> list_ex P xs"
  by (induction xs) auto

lemma find_link_constraint_Some:
  "(\<exists>c. find_link_constraint root rc pk rpk = Some c) \<longleftrightarrow>
     list_ex (\<lambda>c. contype c = ''f'' \<and> confrelid c = Some (class_id root)
                       \<and> getAttributes c = getAttributes rpk
                       \<and> getForeignAttributes c = getAttributes pk) (getConstraints rc)"
  by (simp add: find_link_constraint_def find_is_Some arraysMatch_eq)



lemma relational_type_entry_accepts:
  "(\<exists>entry. relational_type_entry E ev r rc = Inr entry) \<longleftrightarrow> subtype_link_exists (event_pgClass ev) rc"
proof (cases "primaryKey (event_pgClass ev)")
  case None
  then show ?thesis by (simp add: relational_type_entry_def subtype_link_exists_def)
next
  case pk: (Some pk)
  show ?thesis
  proof (cases "primaryKey rc")
    case None
    then show ?thesis using pk by (simp add: relational_type_entry_def subtype_link_exists_def)
  next
    case rpk: (Some rpk)
    show ?thesis
    proof (cases "find_link_constraint (event_pgClass ev) rc pk rpk")
      case None
      then show ?thesis using pk rpk find_link_constraint_Some [of "event_pgClass ev" rc pk rpk]
        by (simp add: relational_type_entry_def subtype_link_exists_def)
    next
      case (Some c)
      then show ?thesis using pk rpk find_link_constraint_Some [of "event_pgClass ev" rc pk rpk]
        by (simp add: relational_type_entry_def subtype_link_exists_def)
    qed
  qed
qed

lemma relational_type_step_accepts:
  assumes "params (parseSmartTagsOptsString E typeTag 1) ''references'' = Some r" and "r \<noteq> []"
    and "parseDatabaseIdentifier E r 2 (nspname (event_pgClass ev)) = Some (ns, tn)"
    and "getClassByName E (event_serviceName ev) ns tn = Some rc"
  shows "(\<exists>types'. relational_type_step E ev typeTag types = Inr types')
           \<longleftrightarrow> subtype_link_exists (event_pgClass ev) rc"
proof -
  have "relational_type_step E ev typeTag types =
      (case relational_type_entry E ev r rc of
         Inl e \<Rightarrow> Inl e
       | Inr entry \<Rightarrow> Inr (AList.update (typeValue_of (parseSmartTagsOptsString E typeTag 1)) entry types))"
    using assms by (simp add: relational_type_step_def)
  then show ?thesis
    using relational_type_entry_accepts [of E ev r rc]
    by (cases "relational_type_entry E ev r rc") auto
qed


lemma foldE_Inr_mem:
  "foldE f xs s = Inr s' \<Longrightarrow> x \<in> set xs \<Longrightarrow> \<exists>s1 s2. f x s1 = Inr s2"
proof (induction xs arbitrary: s)
  case Nil
  then show ?case by simp
next
  case (Cons y ys)
  then show ?case by (auto split: sum.splits)
qed

lemma hook_relational_fold:
  assumes "extension_tags ev = Some tg" and "interfaceTag_of ev tg = Some (TagOne (TagStr s))"
    and "s \<noteq> []" and "params (parseSmartTagsOptsString E s 0) ''mode'' = Some ''relational''"
    and "pgCodecs_recordType_spec E ev = Inr p"
  shows "\<exists>types. foldE (relational_type_step E ev) (typeTags_of (tg ''type'')) [] = Inr types"
proof -
  from assms(4,5) have "map_sum id Some (discover_relational E ev tg
       (discriminator_name (parseSmartTagsOptsString E s 0))) = Inr p"
    unfolding hook_string_tag [OF assms(1-3)] by (simp add: Let_def)
  then obtain q where "discover_relational E ev tg
       (discriminator_name (parseSmartTagsOptsString E s 0)) = Inr q"
    by (cases "discover_relational E ev tg (discriminator_name (parseSmartTagsOptsString E s 0))") auto
  then show ?thesis
    by (auto simp: discover_relational_def split: option.splits sum.splits)
qed

lemma single_type_step_error: "single_type_step E t st = Inl e \<Longrightarrow> e = TypeWithoutName"
  by (auto simp: single_type_step_def Let_def split: if_splits)

lemma relational_type_entry_error:
  "relational_type_entry E ev r rc = Inl e \<Longrightarrow> e = MissingPrimaryKey \<or> e = MissingForeignKey"
  by (auto simp: relational_type_entry_def Let_def split: option.splits)

lemma relational_type_step_error:
  "relational_type_step E ev t st = Inl e \<Longrightarrow> e \<noteq> NoDiscriminatorAttribute d"
  by (auto simp: relational_type_step_def Let_def
      split: if_splits option.splits sum.splits dest: relational_type_entry_error)

lemma foldE_error:
  "foldE f xs s = Inl e \<Longrightarrow> \<exists>x s1. f x s1 = Inl e"
proof (induction xs arbitrary: s)
  case Nil
  then show ?case by simp
next
  case (Cons y ys)
  then show ?case by (auto split: sum.splits)
qed

lemma discover_single_error:
  "discover_single E ev tg d = Inl (NoDiscriminatorAttribute d')
     \<longleftrightarrow> d' = d \<and> getAttribute (event_pgClass ev) d = None"
proof (cases "getAttribute (event_pgClass ev) d")
  case None
  then show ?thesis by (auto simp: discover_single_def)
next
  case (Some a)
  have "foldE (single_type_step E) xs st \<noteq> Inl (NoDiscriminatorAttribute d')" for xs st
    using foldE_error [of "single_type_step E" xs st] single_type_step_error [of E] by fastforce
  then show ?thesis using Some
    by (auto simp: discover_single_def split: sum.splits)
qed

lemma discover_relational_error:
  "discover_relational E ev tg d = Inl (NoDiscriminatorAttribute d')
     \<longleftrightarrow> d' = d \<and> getAttribute (event_pgClass ev) d = None"
proof (cases "getAttribute (event_pgClass ev) d")
  case None
  then show ?thesis by (auto simp: discover_relational_def)
next
  case (Some a)
  have "foldE (relational_type_step E ev) xs st \<noteq> Inl (NoDiscriminatorAttribute d')" for xs st
    using foldE_error [of "relational_type_step E ev" xs st] relational_type_step_error [of E ev]
    by blast
  then show ?thesis using Some
    by (auto simp: discover_relational_def split: sum.splits)
qed

section \<open>The examples, evaluated\<close>

lemma ex_env_fields:
  "parseSmartTagsOptsString ex_env = ex_parse"
  "parseDatabaseIdentifier ex_env r n ns = Some (ns, r)"
  "getClassByName ex_env = ex_getClassByName"
  "getCodecFromClass ex_env = ex_getCodecFromClass"
  "tableType ex_env = ex_tableType"
  "resourceRelationName ex_env = ex_resourceRelationName"
  by (simp_all add: ex_env_def)

lemma vehicle_event_fields:
  "event_pgClass (vehicle_event t) = vehicle"
  "event_serviceName (vehicle_event t) = ''main''"
  "extension_tags (vehicle_event t) = Some [''interface'' \<mapsto> TagOne (TagStr ''mode:relational''),
                            ''type'' \<mapsto> TagOne (TagStr t)]"
  by (simp_all add: vehicle_event_def)

lemma person_event_fields:
  "event_pgClass (person_event i t) = person"
  "event_serviceName (person_event i t) = ''main''"
  "extension_tags (person_event i t) = Some [''interface'' \<mapsto> TagOne (TagStr i), ''type'' \<mapsto> t]"
  by (simp_all add: person_event_def)

lemma contype_examples:
  "contype vehicle_pkey = ''p''" "contype car_pkey = ''p''" "contype van_pkey = ''p''"
  "contype car_vehicle_fkey = ''f''" "contype van_vehicle_fkey = ''f''"
  by (simp_all add: vehicle_pkey_def car_pkey_def van_pkey_def car_vehicle_fkey_def
      van_vehicle_fkey_def)

lemma primaryKey_vehicle: "primaryKey vehicle = Some vehicle_pkey"
  by (simp add: primaryKey_def vehicle_def contype_examples)

lemma primaryKey_car: "primaryKey car = Some car_pkey"
  by (simp add: primaryKey_def car_def contype_examples)

lemma primaryKey_van: "primaryKey van = Some van_pkey"
  by (simp add: primaryKey_def van_def contype_examples)

lemma van_not_linked: "\<not> subtype_link_exists vehicle van"
  by (simp add: subtype_link_exists_def primaryKey_vehicle primaryKey_van)
     (simp add: van_def van_pkey_def van_vehicle_fkey_def vehicle_pkey_def column_def)

lemma car_link: "find_link_constraint vehicle car vehicle_pkey car_pkey = Some car_vehicle_fkey"
  by (simp add: find_link_constraint_def arraysMatch_def car_def contype_examples)
     (simp add: car_vehicle_fkey_def car_pkey_def vehicle_pkey_def vehicle_def)

lemma car_entry:
  "relational_type_entry ex_env (vehicle_event t) ''car'' car =
     Inr \<lparr> rt_name = ''Type_car'', rt_references = ''car'',
           rt_relationName = ''backward_car_vehicle_fkey'' \<rparr>"
proof -
  have c: "class_id car = ''11''" by (simp add: car_def)
  show ?thesis
    unfolding relational_type_entry_def vehicle_event_fields primaryKey_vehicle primaryKey_car
    by (simp add: car_link ex_env_fields c ex_getCodecFromClass_def ex_tableType_def
        ex_resourceRelationName_def car_vehicle_fkey_def)
qed

lemma vehicle_car_discovery:
  "pgCodecs_recordType_spec ex_env (vehicle_event ''car references:car'')
     = Inr (Some vehicle_polymorphism)"
proof -
  let ?tg = "[''interface'' \<mapsto> TagOne (TagStr ''mode:relational''),
        ''type'' \<mapsto> TagOne (TagStr ''car references:car'')]"
  have s: "relational_type_step ex_env (vehicle_event ''car references:car'') ''car references:car'' []
      = Inr [(''car'', \<lparr> rt_name = ''Type_car'', rt_references = ''car'',
                    rt_relationName = ''backward_car_vehicle_fkey'' \<rparr>)]"
    unfolding relational_type_step_def
    by (simp add: ex_env_fields ex_parse_def typeValue_of_def car_entry ex_getClassByName_def)
  have g: "getAttribute (event_pgClass (vehicle_event ''car references:car'')) ''type''
      = Some (column ''10'' 3 ''type'')"
    by (simp add: getAttribute_def vehicle_event_def vehicle_def column_def)
  have d: "discover_relational ex_env (vehicle_event ''car references:car'') ?tg ''type''
     = Inr vehicle_polymorphism"
    unfolding discover_relational_def g by (simp add: s vehicle_polymorphism_def)
  have "pgCodecs_recordType_spec ex_env (vehicle_event ''car references:car'')
      = map_sum id Some (discover_relational ex_env (vehicle_event ''car references:car'') ?tg ''type'')"
    using hook_string_tag [of "vehicle_event ''car references:car''" ?tg "''mode:relational''" ex_env]
    by (simp add: vehicle_event_fields interfaceTag_of_def ex_env_fields ex_parse_def
        discriminator_name_def)
  then show ?thesis by (simp add: d)
qed

lemma person_single_hook:
  "pgCodecs_recordType_spec ex_env (person_event ''mode:single type:kind'' t)
     = map_sum id Some (discover_single ex_env (person_event ''mode:single type:kind'' t)
         [''interface'' \<mapsto> TagOne (TagStr ''mode:single type:kind''), ''type'' \<mapsto> t] ''kind'')"
  using hook_string_tag [of "person_event ''mode:single type:kind'' t" _ "''mode:single type:kind''" ex_env]
  by (simp add: person_event_fields interfaceTag_of_def ex_env_fields ex_parse_def
      discriminator_name_def)

lemma person_kind: "getAttribute person ''kind'' = Some (column ''1'' 2 ''kind'')"
  by (simp add: getAttribute_def person_def column_def)

lemma person_attributeNames:
  "attributeNames person = [''id'', ''kind'', ''name'', ''salary'', ''hourly_rate'']"
  by (simp add: attributeNames_def person_def column_def)

lemma person_discovery:
  "pgCodecs_recordType_spec ex_env (person_event ''mode:single type:kind'' employee_contractor) =
     Inr (Some (PolySingle [''id'', ''kind'', ''name''] [''kind'']
       [(''employee'', \<lparr> st_name = ''Employee'', st_attributes =
            [\<lparr> attribute = ''salary'', isNotNull = True, rename = None \<rparr>] \<rparr>),
        (''contractor'', \<lparr> st_name = ''Contractor'', st_attributes =
            [\<lparr> attribute = ''hourly_rate'', isNotNull = False, rename = None \<rparr>] \<rparr>)]))"
  unfolding person_single_hook discover_single_def person_event_fields person_kind
    person_attributeNames
  by (simp add: employee_contractor_def ex_env_fields ex_parse_def single_type_step_def
      typeValue_of_def override_specs_def parseAttribute_def endsWith_bang_def
      drop_last_char_def)

lemma person_intern_discovery:
  "pgCodecs_recordType_spec ex_env (person_event ''mode:single type:kind'' intern) =
     Inr (Some (PolySingle [''id'', ''kind'', ''name'', ''salary'', ''hourly_rate''] [''kind'']
       [(''intern'', \<lparr> st_name = ''Intern'', st_attributes =
            [\<lparr> attribute = ''stipend'', isNotNull = False, rename = None \<rparr>] \<rparr>)]))"
  unfolding person_single_hook discover_single_def person_event_fields person_kind
    person_attributeNames
  by (simp add: intern_def ex_env_fields ex_parse_def single_type_step_def
      typeValue_of_def override_specs_def parseAttribute_def endsWith_bang_def
      drop_last_char_def)

lemma intern_override_named:
  "override_named ex_env (typeTags_of (Some intern)) = {''stipend''}"
  by (simp add: override_named_def tag_override_names_def intern_def ex_env_fields
      ex_parse_def override_specs_def parseAttribute_def endsWith_bang_def)

section \<open>Claim C1\<close>

text \<open>
  C1: when Discovery processes a type tag of a relational-mode root whose reference
  resolves to a table, the hook returns normally only if both tables have a primary key
  and the referenced table has a foreign key to the root whose local attributes are
  positionally the referenced table's primary key and whose foreign attributes are
  positionally the root's primary key; when there is no such constraint, or a primary key
  is missing, the hook fails with an error for that root.
\<close>

theorem relational_subtype_needs_matching_foreign_key:
  assumes "extension_tags ev = Some tg"
    and "interfaceTag_of ev tg = Some (TagOne (TagStr s))" and "s \<noteq> []"
    and "params (parseSmartTagsOptsString E s 0) ''mode'' = Some ''relational''"
    and "typeTag \<in> set (typeTags_of (tg ''type''))"
    and "params (parseSmartTagsOptsString E typeTag 1) ''references'' = Some r" and "r \<noteq> []"
    and "parseDatabaseIdentifier E r 2 (nspname (event_pgClass ev)) = Some (ns, tn)"
    and "getClassByName E (event_serviceName ev) ns tn = Some referencedClass"
  shows "((\<exists>p. pgCodecs_recordType_spec E ev = Inr p)
            \<longrightarrow> subtype_link_exists (event_pgClass ev) referencedClass)
       \<and> (\<not> subtype_link_exists (event_pgClass ev) referencedClass
            \<longrightarrow> (\<exists>e. pgCodecs_recordType_spec E ev = Inl e))"
proof -
  have a: "subtype_link_exists (event_pgClass ev) referencedClass"
    if "pgCodecs_recordType_spec E ev = Inr p" for p
  proof -
    from hook_relational_fold [OF assms(1-4) that] obtain types
      where "foldE (relational_type_step E ev) (typeTags_of (tg ''type'')) [] = Inr types" ..
    from foldE_Inr_mem [OF this assms(5)] obtain t1 t2
      where "relational_type_step E ev typeTag t1 = Inr t2" by blast
    then show ?thesis
      using relational_type_step_accepts [OF assms(6-9), of t1] by blast
  qed
  show ?thesis
  proof (cases "pgCodecs_recordType_spec E ev")
    case (Inl e)
    then show ?thesis by simp
  next
    case (Inr p)
    then show ?thesis using a by simp
  qed
qed

text \<open>
  The instance for the table \<open>van\<close>, whose foreign key lists the columns of the two
  primary keys in the other order: Discovery of the root fails.
\<close>

theorem relational_subtype_swapped_columns_witness:
  "\<not> subtype_link_exists vehicle van
   \<and> (\<exists>e. pgCodecs_recordType_spec ex_env (vehicle_event ''van references:van'') = Inl e)"
  using relational_subtype_needs_matching_foreign_key
    [of "vehicle_event ''van references:van''" _ "''mode:relational''" ex_env
        "''van references:van''" "''van''" "''public''" "''van''" van]
    van_not_linked
  by (simp add: vehicle_event_fields interfaceTag_of_def ex_env_fields ex_parse_def vehicle_def
      ex_getClassByName_def)


section \<open>Claim C2\<close>

text \<open>
  C2 (as stated, refuted): on the table \<open>person\<close> with the one type tag
  \<open>intern name:Intern attributes:stipend\<close>, where \<open>stipend\<close> is not a column of the
  table, Discovery succeeds in single mode, and the union of \<open>commonAttributes\<close> with the
  override-named attributes is not the table's attribute set.
\<close>

theorem single_union_counterexample:
  "pgCodecs_recordType_spec ex_env (person_event ''mode:single type:kind'' intern) =
     Inr (Some (PolySingle [''id'', ''kind'', ''name'', ''salary'', ''hourly_rate''] [''kind'']
       [(''intern'', \<lparr> st_name = ''Intern'', st_attributes =
            [\<lparr> attribute = ''stipend'', isNotNull = False, rename = None \<rparr>] \<rparr>)]))
   \<and> set [''id'', ''kind'', ''name'', ''salary'', ''hourly_rate'']
         \<union> override_named ex_env (typeTags_of (Some intern))
       \<noteq> set (attributeNames person)"
proof -
  have "''stipend'' \<notin> set (attributeNames person)"
    by (simp add: person_attributeNames)
  then have "set [''id'', ''kind'', ''name'', ''salary'', ''hourly_rate'']
         \<union> override_named ex_env (typeTags_of (Some intern))
       \<noteq> set (attributeNames person)"
    unfolding intern_override_named by blast
  with person_intern_discovery show ?thesis by (intro conjI)
qed

text \<open>
  C2 (amended): for every single-mode root after Discovery, \<open>commonAttributes\<close> is the
  table's attribute names (those with \<open>attnum >= 1\<close>) minus every attribute named in any
  type tag's override list; so it is disjoint from the override-named attributes, and
  its union with the override-named attributes that are attributes of the table is the
  table's attribute set. The union with all override-named attributes is the table's
  attribute set exactly when every override names an attribute of the table.
\<close>

theorem single_commonAttributes:
  assumes "pgCodecs_recordType_spec E ev = Inr (Some polymorphism)"
    and "commonAttributes polymorphism = Some common"
    and "extension_tags ev = Some tg"
    and "named = override_named E (typeTags_of (tg ''type''))"
  shows "common = filter (\<lambda>n. n \<notin> named) (attributeNames (event_pgClass ev))
       \<and> set common \<inter> named = {}
       \<and> set common \<union> (named \<inter> set (attributeNames (event_pgClass ev)))
            = set (attributeNames (event_pgClass ev))
       \<and> (set common \<union> named = set (attributeNames (event_pgClass ev))
            \<longleftrightarrow> named \<subseteq> set (attributeNames (event_pgClass ev)))"
proof -
  from assms(2) obtain ta types where "polymorphism = PolySingle common ta types"
    by (cases polymorphism) auto
  with assms(1) have "pgCodecs_recordType_spec E ev = Inr (Some (PolySingle common ta types))"
    by simp
  from hook_single_common [OF this assms(3)] assms(4)
  have c: "common = filter (\<lambda>n. n \<notin> named) (attributeNames (event_pgClass ev))"
    by simp
  show ?thesis unfolding c by auto
qed

text \<open>The specification's example: \<open>commonAttributes = {id, kind, name}\<close>.\<close>

theorem single_commonAttributes_witness:
  "[''id'', ''kind'', ''name'']
     = filter (\<lambda>n. n \<notin> override_named ex_env (typeTags_of (Some employee_contractor)))
         (attributeNames person)
   \<and> set [''id'', ''kind'', ''name'']
         \<inter> override_named ex_env (typeTags_of (Some employee_contractor)) = {}
   \<and> set [''id'', ''kind'', ''name'']
         \<union> (override_named ex_env (typeTags_of (Some employee_contractor))
              \<inter> set (attributeNames person))
       = set (attributeNames person)"
proof -
  let ?tg = "[''interface'' \<mapsto> TagOne (TagStr ''mode:single type:kind''),
              ''type'' \<mapsto> employee_contractor]"
  have tg: "extension_tags (person_event ''mode:single type:kind'' employee_contractor) = Some ?tg"
    by (simp add: person_event_fields)
  have a: "?tg ''type'' = Some employee_contractor" by simp
  have b: "event_pgClass (person_event ''mode:single type:kind'' employee_contractor) = person"
    by (simp add: person_event_fields)
  have c: "commonAttributes (PolySingle [''id'', ''kind'', ''name''] [''kind'']
       [(''employee'', \<lparr> st_name = ''Employee'', st_attributes =
            [\<lparr> attribute = ''salary'', isNotNull = True, rename = None \<rparr>] \<rparr>),
        (''contractor'', \<lparr> st_name = ''Contractor'', st_attributes =
            [\<lparr> attribute = ''hourly_rate'', isNotNull = False, rename = None \<rparr>] \<rparr>)])
      = Some [''id'', ''kind'', ''name'']"
    by simp
  from single_commonAttributes [OF person_discovery c tg refl]
  show ?thesis unfolding a b by (elim conjE, intro conjI) assumption+
qed

section \<open>Claim C9\<close>

text \<open>
  C9: for an interface tag of mode single or relational, the discriminator attribute
  name is the \<open>type\<close> parameter, and \<open>"type"\<close> when the parameter is omitted; Discovery
  raises the missing-discriminator error exactly when the table has no attribute of that
  name, and on success the descriptor's \<open>typeAttributes\<close> is that one name.
\<close>

theorem discriminator_defaults_to_type:
  assumes "extension_tags ev = Some tg"
    and "interfaceTag_of ev tg = Some (TagOne (TagStr s))" and "s \<noteq> []"
    and "params (parseSmartTagsOptsString E s 0) ''mode'' = Some ''single''
       \<or> params (parseSmartTagsOptsString E s 0) ''mode'' = Some ''relational''"
    and "d = (case params (parseSmartTagsOptsString E s 0) ''type'' of
                None \<Rightarrow> ''type'' | Some t \<Rightarrow> t)"
  shows "(pgCodecs_recordType_spec E ev = Inl (NoDiscriminatorAttribute d)
            \<longleftrightarrow> d \<notin> attname ` set (classAttributes (event_pgClass ev)))
       \<and> (\<forall>p. pgCodecs_recordType_spec E ev = Inr (Some p) \<longrightarrow> typeAttributes p = Some [d])"
proof -
  have d: "discriminator_name (parseSmartTagsOptsString E s 0) = d"
    using assms(5) by (simp add: discriminator_name_def)
  from assms(4) show ?thesis
  proof
    assume m: "params (parseSmartTagsOptsString E s 0) ''mode'' = Some ''single''"
    have h: "pgCodecs_recordType_spec E ev = map_sum id Some (discover_single E ev tg d)"
      unfolding hook_string_tag [OF assms(1-3)] using m d by (simp add: Let_def)
    show ?thesis unfolding h
      by (auto simp: map_sum_Some_Inl map_sum_Some_Inr discover_single_error
          getAttribute_None dest!: discover_single_mode)
  next
    assume m: "params (parseSmartTagsOptsString E s 0) ''mode'' = Some ''relational''"
    have h: "pgCodecs_recordType_spec E ev = map_sum id Some (discover_relational E ev tg d)"
      unfolding hook_string_tag [OF assms(1-3)] using m d by (simp add: Let_def)
    show ?thesis unfolding h
      by (auto simp: map_sum_Some_Inl map_sum_Some_Inr discover_relational_error
          getAttribute_None dest!: discover_relational_mode)
  qed
qed

text \<open>
  The table \<open>person\<close> has no column \<open>type\<close>: an interface tag \<open>mode:relational\<close> with
  no \<open>type\<close> parameter fails on it; the table \<open>vehicle\<close> has one, and succeeds.
\<close>

theorem discriminator_defaults_to_type_witness:
  "pgCodecs_recordType_spec ex_env (person_event ''mode:relational'' intern)
     = Inl (NoDiscriminatorAttribute ''type'')
   \<and> ''type'' \<notin> attname ` set (classAttributes person)"
  using discriminator_defaults_to_type
    [of "person_event ''mode:relational'' intern" _ "''mode:relational''" ex_env "''type''"]
  by (simp add: person_event_fields interfaceTag_of_def ex_env_fields ex_parse_def)
     (simp add: person_def column_def)

section \<open>Schema hooks: general facts\<close>




lemma distinct_add_membership:
  "distinct (map fst acc) \<Longrightarrow> distinct (map fst (add_membership u c acc))"
  by (auto simp: add_membership_def distinct_update map_of_eq_None_iff split: option.splits)



lemma membership_loop_distinct:
  "distinct (map fst acc) \<Longrightarrow> distinct (map fst (snd (membership_loop c ms acc)))"
  by (induction c ms acc rule: membership_loop.induct) (auto simp: distinct_add_membership)



lemma scan_codecs_distinct:
  "distinct (map fst (snd st)) \<Longrightarrow> distinct (map fst (snd (scan_codecs B cs st)))"
  by (induction B cs st rule: scan_codecs.induct)
     (auto simp: detect_union_membership_def recoverable_def membership_loop_distinct)

lemma unionsToRegister_distinct: "distinct (map fst (unionsToRegister B codecs))"
  by (simp add: unionsToRegister_def scan_codecs_distinct)

lemma register_interface_no_union: "filter (registers_union u) (register_interface B c) = []"
  by (simp add: register_interface_def Let_def)

lemma register_single_types_no_union:
  "filter (registers_union u) (concat (map (register_single_type B c) es)) = []"
  by (induction es) (simp_all add: register_single_type_def Let_def)

lemma detect_interface_no_union: "filter (registers_union u) (detect_interface B c) = []"
proof (cases "codec_polymorphism c")
  case None
  then show ?thesis by (simp add: detect_interface_def)
next
  case (Some p)
  then show ?thesis
    by (cases p)
       (simp_all add: detect_interface_def register_interface_no_union
          register_single_types_no_union)
qed

lemma scan_codecs_no_union:
  "filter (registers_union u) (fst st) = [] \<Longrightarrow>
   filter (registers_union u) (fst (scan_codecs B cs st)) = []"
  by (induction B cs st rule: scan_codecs.induct) (auto simp: detect_interface_no_union)

lemma filter_registers_union:
  "distinct (map fst acc) \<Longrightarrow> (u, cs) \<in> set acc \<Longrightarrow>
   filter (registers_union u) (map (\<lambda>(n, codecs). RegisterUnionType n codecs) acc)
     = [RegisterUnionType u cs]"
proof (induction acc)
  case Nil
  then show ?case by simp
next
  case (Cons a acc)
  obtain n l where a: "a = (n, l)" by (cases a)
  show ?case
  proof (cases "n = u")
    case True
    with Cons.prems a have "l = cs" and "u \<notin> fst ` set acc" by (auto simp: image_iff)
    then have "filter (registers_union u) (map (\<lambda>(n, codecs). RegisterUnionType n codecs) acc) = []"
      by (force simp: filter_empty_conv)
    with True a \<open>l = cs\<close> show ?thesis by simp
  next
    case False
    with Cons a show ?thesis by auto
  qed
qed






section \<open>Attribute inheritance: general facts\<close>






lemma polymorphism_copy_attributes:
  "codec_polymorphism (copy_attributes sh r oc \<sigma> c) = codec_polymorphism (\<sigma> c)"
  by (simp add: copy_attributes_def)






lemma forget_update [simp]: "forget_identicalVia (a \<lparr> identicalVia := x \<rparr>) = forget_identicalVia a"
  by (simp add: forget_identicalVia_def)














section \<open>Reference synthesis: general facts\<close>












section \<open>The registry and schema examples, evaluated\<close>

lemma trim_Shape: "trim ''Shape'' = ''Shape''" "trim '' Shape '' = ''Shape''"
  by (simp_all add: trim_def js_whitespace_def)

lemma circle_memberships: "memberships_of circle = [TagStr ''Shape'', TagStr ''Shape'']"
  by (simp add: memberships_of_def circle_def)

lemma square_memberships: "memberships_of square = [TagStr '' Shape '']"
  by (simp add: memberships_of_def square_def)


lemma circle_square_scan:
  "unionsToRegister ex_build [circle, square] = [(''Shape'', [circle, circle, square])]"
proof -
  have a: "codec_attributes circle \<noteq> None" "codec_attributes square \<noteq> None"
    by (simp_all add: circle_def square_def)
  show ?thesis
    by (simp add: unionsToRegister_def a detect_union_membership_def recoverable_def circle_memberships
        square_memberships trim_Shape add_membership_def)
qed
















section \<open>Claim C3\<close>




section \<open>Claim C4\<close>



section \<open>Claim C5\<close>




section \<open>Claim C7\<close>

text \<open>
  C7: when the schema's types are assembled, for every registered interface type whose
  scope carries a single- or relational-mode polymorphism, the type looked up by the name
  of each declared concrete subtype is in the final type list; the types given to the hook
  stay at the front of the list.
\<close>

theorem interface_subtypes_forced:
  assumes "type \<in> set (getAllTypes T)" and "isInterfaceType T type"
    and "scopeByType T type = Some (Some polymorphism)"
    and "polymorphism \<noteq> PolyUnion"
    and "n \<in> set (declared_type_names polymorphism)"
  shows "getTypeByName B n \<in> set (GraphQLSchema_types types B T)
       \<and> take (length types) (GraphQLSchema_types types B T) = types"
proof -
  have "getTypeByName B n \<in> set (forced_types B T type)"
    using assms(2-5) by (cases polymorphism) (auto simp: forced_types_def)
  with assms(1) show ?thesis
    by (auto simp: GraphQLSchema_types_def)
qed


theorem interface_subtypes_forced_witness:
  "Some ''Type_car'' \<in> set (GraphQLSchema_types [] ex_build ex_types)"
  using interface_subtypes_forced
    [of "''Type_vehicle''" ex_types vehicle_polymorphism "''Type_car''" ex_build "[]"]
  by (simp add: ex_types_def vehicle_polymorphism_def object_values_def ex_build_def)

section \<open>Claim C8\<close>

text \<open>
  C8: for each accumulated union name exactly one union type is registered (the hook
  calls \<open>registerUnionType\<close> once for it), with the accumulated codecs of that name; its
  member types are exactly the types that the codecs' type names resolve to, names that
  resolve to nothing being dropped, without an error.
\<close>

theorem one_union_per_name:
  assumes "(u, cs) \<in> set (unionsToRegister B codecs)"
  shows "filter (registers_union u) (init B codecs) = [RegisterUnionType u cs]
       \<and> set (union_types B cs)
           = {t. \<exists>c \<in> set cs. getTypeByName B (inflection_tableType B c) = Some t}
       \<and> length (union_types B cs) \<le> length cs"
proof -
  have "filter (registers_union u) (fst (scan_codecs B codecs ([], []))) = []"
    by (rule scan_codecs_no_union) simp
  moreover have "filter (registers_union u)
       (map (\<lambda>(n, codecs). RegisterUnionType n codecs) (snd (scan_codecs B codecs ([], []))))
     = [RegisterUnionType u cs]"
    using filter_registers_union [OF unionsToRegister_distinct assms]
    by (simp add: unionsToRegister_def)
  ultimately have "filter (registers_union u) (init B codecs) = [RegisterUnionType u cs]"
    by (simp add: init_def Let_def)
  moreover have "set (union_types B cs)
           = {t. \<exists>c \<in> set cs. getTypeByName B (inflection_tableType B c) = Some t}"
    by (force simp: union_types_def map_filter_def image_iff)
  moreover have "length (union_types B cs) \<le> length cs"
    by (simp add: union_types_def map_filter_def) 
  ultimately show ?thesis by simp
qed

text \<open>The type of \<open>square\<close> is not constructed, and is dropped from the union.\<close>

theorem one_union_per_name_witness:
  "filter (registers_union ''Shape'') (init ex_build [circle, square])
     = [RegisterUnionType ''Shape'' [circle, circle, square]]
   \<and> set (union_types ex_build [circle, circle, square]) = {''Type_circle''}"
proof -
  have "(''Shape'', [circle, circle, square]) \<in> set (unionsToRegister ex_build [circle, square])"
    by (simp add: circle_square_scan)
  from one_union_per_name [OF this]
  show ?thesis by (auto simp: ex_build_def circle_def square_def)
qed


section \<open>Claim C10\<close>





end
